theory Spec2Isabelle
  imports Main "HOL-Library.Sublist" "HOL-Library.Word"
begin

section \<open>Python strings\<close>

text \<open>
  Python strings are modelled as \<open>string\<close> (lists of characters). The three string
  operations the dialect modules rely on are \<open>str.split\<close> with a one-character
  separator, \<open>str.join\<close> and \<open>str.find\<close>.
\<close>

text \<open>\<^verbatim>\<open>s.split(sep)\<close> for a separator of one character: the result is never empty, and
  an empty input gives one empty chunk.\<close>

fun py_split :: "char \<Rightarrow> string \<Rightarrow> string list" where
  "py_split sep [] = [[]]"
| "py_split sep (c # cs) =
     (if c = sep then [] # py_split sep cs
      else (case py_split sep cs of
              [] \<Rightarrow> [[c]]
            | chunk # chunks \<Rightarrow> (c # chunk) # chunks))"

text \<open>\<^verbatim>\<open>sep.join(chunks)\<close>.\<close>

fun py_join :: "string \<Rightarrow> string list \<Rightarrow> string" where
  "py_join sep [] = []"
| "py_join sep [x] = x"
| "py_join sep (x # y # ys) = x @ sep @ py_join sep (y # ys)"

text \<open>\<^verbatim>\<open>s.find(sub)\<close>: the lowest index at which \<open>sub\<close> starts in \<open>s\<close>, or \<open>-1\<close>.
  \<open>py_find_from\<close> carries the index of the position being tried.\<close>

fun py_find_from :: "int \<Rightarrow> string \<Rightarrow> string \<Rightarrow> int" where
  "py_find_from i [] sub = (if sub = [] then i else - 1)"
| "py_find_from i (c # cs) sub =
     (if prefix sub (c # cs) then i else py_find_from (i + 1) cs sub)"

definition py_find :: "string \<Rightarrow> string \<Rightarrow> int" where
  "py_find s sub = py_find_from 0 s sub"

section \<open>The MSSQL dialect: schema removal\<close>

text \<open>
  \<^verbatim>\<open>_fix_GIS_schema_issue(clause)\<close> of \<^verbatim>\<open>mssql.py\<close>: split at the dots, pop the first
  chunk when there are more than two, join again. (The source also writes the popped
  chunk to the debug log; the log is not part of the model.)
\<close>

definition fix_GIS_schema_issue :: "string \<Rightarrow> string" where
  "fix_GIS_schema_issue clause =
     (let chunks = py_split CHR ''.'' clause;
          chunks = (if length chunks > 2 then tl chunks else chunks)
      in py_join ''.'' chunks)"


section \<open>Python values, errors and formatting\<close>

text \<open>
  The exceptions the two modules can raise: the \<^verbatim>\<open>RuntimeError\<close> of
  \<^verbatim>\<open>load_oracle_spatial_driver\<close> (with its message) and the exceptions Python raises
  by itself on an index out of range, on a missing attribute and on an operation or a call
  that does not fit its operands.
\<close>

datatype error = IndexError | AttributeError | TypeError | RuntimeError string

text \<open>
  The values a bind parameter of the expression tree carries. A \<^verbatim>\<open>memoryview\<close> and
  a \<^verbatim>\<open>bytes\<close> object both hold a sequence of bytes; they differ in their Python type,
  which is what \<^verbatim>\<open>isinstance(wkb_data, memoryview)\<close> tests.
\<close>

datatype pyvalue =
    PyNone
  | PyInt int
  | PyStr string
  | PyBytes "8 word list"
  | PyMemoryview "8 word list"

text \<open>\<^verbatim>\<open>str(n)\<close> for an integer: decimal digits, with a minus sign when negative.\<close>

fun digits :: "nat \<Rightarrow> string" where
  "digits n =
     (if n < 10 then [''0123456789'' ! n]
      else digits (n div 10) @ [''0123456789'' ! (n mod 10)])"

definition py_str_int :: "int \<Rightarrow> string" where
  "py_str_int i = (if i < 0 then CHR ''-'' # digits (nat (- i)) else digits (nat i))"

text \<open>\<^verbatim>\<open>bytes.hex()\<close>: two lower-case hexadecimal digits for each byte.\<close>

definition hex_byte :: "8 word \<Rightarrow> string" where
  "hex_byte b = [''0123456789abcdef'' ! (unat b div 16), ''0123456789abcdef'' ! (unat b mod 16)]"

definition bytes_hex :: "8 word list \<Rightarrow> string" where
  "bytes_hex bs = concat (map hex_byte bs)"

text \<open>\<^verbatim>\<open>str.upper()\<close> on the ASCII letters; a \<open>char\<close> is a byte, and every other
  byte is left as it is.\<close>

definition py_upper :: "string \<Rightarrow> string" where
  "py_upper s =
     map (\<lambda>c. case map_of (zip ''abcdefghijklmnopqrstuvwxyz'' ''ABCDEFGHIJKLMNOPQRSTUVWXYZ'') c of
                 None \<Rightarrow> c
               | Some u \<Rightarrow> u) s"

text \<open>An attribute that may be \<^verbatim>\<open>None\<close>, interpolated into an f-string.\<close>

definition py_str_opt :: "string option \<Rightarrow> string" where
  "py_str_opt v = (case v of None \<Rightarrow> ''None'' | Some s \<Rightarrow> s)"

section \<open>The expression tree and the compiler of the host ORM\<close>

text \<open>
  A clause of a function element is either a bind parameter, which has a \<^verbatim>\<open>value\<close>
  attribute, or another clause element (a column, a nested expression), which has none:
  \<open>ColumnClause\<close> stands for every clause element without \<^verbatim>\<open>value\<close>, named by its text.
\<close>

datatype clause = BindParameter pyvalue | ColumnClause string

text \<open>Reading \<^verbatim>\<open>.value\<close> raises \<^verbatim>\<open>AttributeError\<close> on a clause that is no bind parameter.\<close>

definition clause_value :: "clause \<Rightarrow> error + pyvalue" where
  "clause_value c = (case c of BindParameter v \<Rightarrow> Inr v | ColumnClause _ \<Rightarrow> Inl AttributeError)"

text \<open>What \<^verbatim>\<open>compiler.process\<close> is given: one clause, or a \<^verbatim>\<open>ClauseList\<close>.\<close>

datatype visitable = Clause clause | ClauseList "clause list"

text \<open>
  The SQL compiler belongs to the host ORM, so \<^verbatim>\<open>compiler.process\<close> is a parameter of
  the model: any function from what it is given and the keyword arguments \<^verbatim>\<open>**kw\<close> to
  SQL text. It is taken to return and to change nothing.
\<close>

record 'kw compiler =
  process :: "visitable \<Rightarrow> 'kw \<Rightarrow> string"

text \<open>The type object of an element or of a column; \<^verbatim>\<open>srid\<close> is the one attribute read.\<close>

record geometry =
  srid :: int

text \<open>
  A function element: its function class (the name of the class in
  \<^verbatim>\<open>geoalchemy2.functions\<close>), the attribute \<^verbatim>\<open>identifier\<close>, the clauses
  \<^verbatim>\<open>element.clauses.clauses\<close> and the type \<^verbatim>\<open>element.type\<close>.
\<close>

record element =
  cls :: string
  element_identifier :: string
  clauses :: "clause list"
  etype :: geometry

text \<open>
  A compilation function receives the element, the compiler and \<^verbatim>\<open>**kw\<close>. It may
  assign to attributes of the element, so it gives back the element as it leaves it,
  together with the SQL text or the exception raised.
\<close>

type_synonym 'kw compile_fn = "element \<Rightarrow> 'kw compiler \<Rightarrow> 'kw \<Rightarrow> element \<times> (error + string)"

text \<open>
  \<^verbatim>\<open>compiles(cls, dialect)(fn)\<close> of the host ORM records \<open>fn\<close> as the compilation of
  class \<open>cls\<close> under \<open>dialect\<close>, replacing an earlier registration; compiling an element
  calls the function registered for its class. \<open>None\<close> stands for the default compilation
  of the host ORM, used when nothing is registered.
\<close>

type_synonym 'kw registry = "string \<times> string \<rightharpoonup> 'kw compile_fn"

definition compiles :: "string \<Rightarrow> string \<Rightarrow> 'kw compile_fn \<Rightarrow> 'kw registry \<Rightarrow> 'kw registry" where
  "compiles c dialect fn reg = reg((c, dialect) \<mapsto> fn)"

definition compile_element ::
  "'kw registry \<Rightarrow> string \<Rightarrow> element \<Rightarrow> 'kw compiler \<Rightarrow> 'kw \<Rightarrow> (element \<times> (error + string)) option" where
  "compile_element reg dialect element compiler kw =
     (case reg (cls element, dialect) of
        None \<Rightarrow> None
      | Some fn \<Rightarrow> Some (fn element compiler kw))"

section \<open>The MSSQL dialect: compilation functions\<close>

definition STAsBinary :: "'kw compile_fn" where
  "STAsBinary element compiler kw =
     (let compiled = process compiler (ClauseList (clauses element)) kw;
          compiled = fix_GIS_schema_issue compiled
      in (element, Inr (compiled @ ''.STAsBinary()'')))"

definition STGeomFromText :: "'kw compile_fn" where
  "STGeomFromText element compiler kw =
     (let element = element\<lparr>element_identifier := ''geometry::STGeomFromText''\<rparr>;
          compiled = process compiler (ClauseList (clauses element)) kw;
          s = (if srid (etype element) > 0 then srid (etype element) else 0)
      in (element, Inr (element_identifier element @ ''('' @ compiled @ '', '' @ py_str_int s @ '')'')))"

text \<open>
  \<^verbatim>\<open>STGeomFromWKB\<close>: the identifier is assigned first; \<^verbatim>\<open>list(element.clauses)[0]\<close>
  raises on an element without clauses and \<^verbatim>\<open>.value\<close> on a first clause that is no bind
  parameter; a \<^verbatim>\<open>memoryview\<close> value is replaced in the clause by its bytes.
\<close>

definition STGeomFromWKB :: "'kw compile_fn" where
  "STGeomFromWKB element compiler kw =
     (let element = element\<lparr>element_identifier := ''geometry::STGeomFromWKB''\<rparr>
      in if clauses element = [] then (element, Inl IndexError)
         else case clause_value (hd (clauses element)) of
           Inl e \<Rightarrow> (element, Inl e)
         | Inr wkb_data \<Rightarrow>
             (let element =
                    (case wkb_data of
                       PyMemoryview bs \<Rightarrow>
                         element\<lparr>clauses := BindParameter (PyBytes bs) # tl (clauses element)\<rparr>
                     | _ \<Rightarrow> element);
                  compiled = process compiler (ClauseList (clauses element)) kw;
                  s = srid (etype element)
              in if s > 0
                 then (element, Inr (element_identifier element @ ''('' @ compiled @ '', '' @ py_str_int s @ '')''))
                 else (element, Inr (element_identifier element @ ''('' @ compiled @ '')''))))"

text \<open>
  \<^verbatim>\<open>STWithin\<close>: \<^verbatim>\<open>element.clauses.clauses[0]\<close> raises on an element without clauses;
  \<^verbatim>\<open>clauses[1:]\<close> is the tail.
\<close>

definition STWithin :: "'kw compile_fn" where
  "STWithin element compiler kw =
     (if clauses element = [] then (element, Inl IndexError)
      else let obj = hd (clauses element);
               compiled_obj = process compiler (Clause obj) kw;
               compiled_obj = fix_GIS_schema_issue compiled_obj;
               compiled_clauses = process compiler (ClauseList (tl (clauses element))) kw
           in (element, Inr (compiled_obj @ ''.STWithin('' @ compiled_clauses @ '')=1'')))"

text \<open>
  \<^verbatim>\<open>STDWithin\<close>: \<open>d\<close> is the \<^verbatim>\<open>value\<close> attribute of the last clause, and the f-string
  renders it with Python's \<^verbatim>\<open>format\<close>, which is the parameter \<open>fmt\<close>;
  \<^verbatim>\<open>clauses[1:-1]\<close> drops the first and the last clause.
\<close>

definition STDWithin :: "(pyvalue \<Rightarrow> string) \<Rightarrow> 'kw compile_fn" where
  "STDWithin fmt element compiler kw =
     (if clauses element = [] then (element, Inl IndexError)
      else let obj = hd (clauses element);
               compiled_obj = process compiler (Clause obj) kw;
               compiled_obj = fix_GIS_schema_issue compiled_obj
           in case clause_value (last (clauses element)) of
                Inl e \<Rightarrow> (element, Inl e)
              | Inr d \<Rightarrow>
                  (let compiled_clauses =
                         process compiler (ClauseList (butlast (tl (clauses element)))) kw
                   in (element,
                       Inr (compiled_obj @ ''.STDistance('' @ compiled_clauses @ '') <= '' @ fmt d))))"

definition STCoveredBy :: "'kw compile_fn" where
  "STCoveredBy element compiler kw =
     (if clauses element = [] then (element, Inl IndexError)
      else let obj = hd (clauses element);
               compiled_obj = process compiler (Clause obj) kw;
               compiled_obj = fix_GIS_schema_issue compiled_obj;
               compiled_clauses = process compiler (ClauseList (tl (clauses element))) kw
           in (element, Inr (compiled_obj @ ''.STDistance('' @ compiled_clauses @ '') <= 0'')))"

definition STRelate :: "(pyvalue \<Rightarrow> string) \<Rightarrow> 'kw compile_fn" where
  "STRelate fmt element compiler kw =
     (if clauses element = [] then (element, Inl IndexError)
      else let obj = hd (clauses element);
               compiled_obj = process compiler (Clause obj) kw;
               compiled_obj = fix_GIS_schema_issue compiled_obj
           in case clause_value (last (clauses element)) of
                Inl e \<Rightarrow> (element, Inl e)
              | Inr pattern \<Rightarrow>
                  (let compiled_clauses =
                         process compiler (ClauseList (butlast (tl (clauses element)))) kw
                   in (element,
                       Inr (compiled_obj @ ''.STRelate('' @ compiled_clauses @ '', '' @ [CHR 0x27]
                            @ fmt pattern @ [CHR 0x27] @ '') = 1''))))"

text \<open>The registrations at the end of \<^verbatim>\<open>mssql.py\<close>, in the order of the source.\<close>

definition mssql_module :: "(pyvalue \<Rightarrow> string) \<Rightarrow> 'kw registry \<Rightarrow> 'kw registry" where
  "mssql_module fmt reg =
     (let reg = compiles ''ST_AsBinary'' ''mssql'' STAsBinary reg;
          reg = compiles ''ST_AsWKB'' ''mssql'' STAsBinary reg;
          reg = compiles ''ST_AsEWKB'' ''mssql'' STAsBinary reg;
          reg = compiles ''ST_GeomFromWKB'' ''mssql'' STGeomFromWKB reg;
          reg = compiles ''ST_GeomFromEWKB'' ''mssql'' STGeomFromWKB reg;
          reg = compiles ''ST_GeomFromEWKT'' ''mssql'' STGeomFromText reg;
          reg = compiles ''ST_Within'' ''mssql'' STWithin reg;
          reg = compiles ''ST_DWithin'' ''mssql'' (STDWithin fmt) reg;
          reg = compiles ''ST_CoveredBy'' ''mssql'' STCoveredBy reg;
          reg = compiles ''ST_Relate'' ''mssql'' (STRelate fmt) reg
      in reg)"

section \<open>The Oracle dialect: compilation functions\<close>

definition ORACLE_FUNCTIONS :: "(string \<times> string) list" where
  "ORACLE_FUNCTIONS =
     [(''ST_AsBinary'', ''SDO_UTIL.TO_WKBGEOMETRY''),
      (''ST_AsEWKB'', ''SDO_UTIL.TO_WKBGEOMETRY''),
      (''ST_AsGeoJSON'', ''SDO_UTIL.TO_GEOJSON'')]"

text \<open>The closure \<^verbatim>\<open>_compile_oracle\<close> that \<^verbatim>\<open>_compiles_oracle(cls, fn)\<close> builds around \<open>fn\<close>.\<close>

definition compile_oracle :: "string \<Rightarrow> 'kw compile_fn" where
  "compile_oracle fn element compiler kw =
     (element, Inr (fn @ ''('' @ process compiler (ClauseList (clauses element)) kw @ '')''))"

text \<open>
  \<^verbatim>\<open>_compiles_oracle(cls, fn)\<close> looks the class up with \<^verbatim>\<open>getattr(functions, cls)\<close>. The
  module \<^verbatim>\<open>geoalchemy2.functions\<close> is not among the sources, so its namespace is the
  parameter \<open>functions\<close>: \<open>functions c\<close> holds when the module has a function class named
  \<open>c\<close>, and \<^verbatim>\<open>getattr\<close> raises \<^verbatim>\<open>AttributeError\<close> otherwise. A class is identified
  with its name. The registry is returned as the call leaves it.
\<close>

definition compiles_oracle ::
  "(string \<Rightarrow> bool) \<Rightarrow> string \<Rightarrow> string \<Rightarrow> 'kw registry \<Rightarrow> 'kw registry \<times> (error + unit)" where
  "compiles_oracle functions c fn reg =
     (if functions c then (compiles c ''oracle'' (compile_oracle fn) reg, Inr ())
      else (reg, Inl AttributeError))"

text \<open>
  \<^verbatim>\<open>register_oracle_mapping(mapping)\<close>: the loop over \<^verbatim>\<open>mapping.items()\<close>, a dictionary
  in insertion order, given as a list of pairs. An exception ends the loop and keeps the
  registrations made so far.
\<close>

fun register_oracle_mapping ::
  "(string \<Rightarrow> bool) \<Rightarrow> (string \<times> string) list \<Rightarrow> 'kw registry \<Rightarrow> 'kw registry \<times> (error + unit)" where
  "register_oracle_mapping functions [] reg = (reg, Inr ())"
| "register_oracle_mapping functions ((c, fn) # mapping) reg =
     (case compiles_oracle functions c fn reg of
        (reg', Inl e) \<Rightarrow> (reg', Inl e)
      | (reg', Inr _) \<Rightarrow> register_oracle_mapping functions mapping reg')"

definition compile_ST_Within_Oracle :: "'kw compile_fn" where
  "compile_ST_Within_Oracle element compiler kw =
     (let element = element\<lparr>element_identifier := ''SDO_INSIDE''\<rparr>;
          compiled = process compiler (ClauseList (clauses element)) kw
      in (element, Inr (element_identifier element @ ''('' @ compiled @ '') = '' @ [CHR 0x27] @ ''TRUE'' @ [CHR 0x27])))"

definition compile_ST_GeomFromText_Oracle :: "'kw compile_fn" where
  "compile_ST_GeomFromText_Oracle element compiler kw =
     (let element = element\<lparr>element_identifier := ''SDO_GEOMETRY''\<rparr>;
          compiled = process compiler (ClauseList (clauses element)) kw;
          s = srid (etype element)
      in if s > 0
         then (element, Inr (element_identifier element @ ''('' @ compiled @ '', '' @ py_str_int s @ '')''))
         else (element, Inr (element_identifier element @ ''('' @ compiled @ '')'')))"

text \<open>
  \<^verbatim>\<open>_compile_GeomFromWKB_Oracle\<close>: as the MSSQL function, but a \<^verbatim>\<open>memoryview\<close> value
  is replaced by the hexadecimal text of its bytes, and the first comma-separated part of
  the compiled text is wrapped in \<^verbatim>\<open>TO_BLOB(...)\<close>. \<^verbatim>\<open>split\<close> never returns an empty
  list, so index 0 exists.
\<close>

definition compile_GeomFromWKB_Oracle :: "'kw compile_fn" where
  "compile_GeomFromWKB_Oracle element compiler kw =
     (let element = element\<lparr>element_identifier := ''SDO_GEOMETRY''\<rparr>
      in if clauses element = [] then (element, Inl IndexError)
         else case clause_value (hd (clauses element)) of
           Inl e \<Rightarrow> (element, Inl e)
         | Inr wkb_data \<Rightarrow>
             (let element =
                    (case wkb_data of
                       PyMemoryview bs \<Rightarrow>
                         element\<lparr>clauses := BindParameter (PyStr (bytes_hex bs)) # tl (clauses element)\<rparr>
                     | _ \<Rightarrow> element);
                  compiled = process compiler (ClauseList (clauses element)) kw;
                  compiled_list = py_split CHR '','' compiled;
                  compiled_list = compiled_list[0 := ''TO_BLOB('' @ compiled_list ! 0 @ '')''];
                  compiled = py_join '','' compiled_list;
                  s = srid (etype element)
              in if s > 0
                 then (element, Inr (element_identifier element @ ''('' @ compiled @ '', '' @ py_str_int s @ '')''))
                 else (element, Inr (element_identifier element @ ''('' @ compiled @ '')''))))"

definition Oracle_ST_Within :: "'kw compile_fn" where
  "Oracle_ST_Within element compiler kw = compile_ST_Within_Oracle element compiler kw"

definition Oracle_ST_GeomFromEWKB :: "'kw compile_fn" where
  "Oracle_ST_GeomFromEWKB element compiler kw = compile_GeomFromWKB_Oracle element compiler kw"

definition Oracle_ST_GeomFromWKB :: "'kw compile_fn" where
  "Oracle_ST_GeomFromWKB element compiler kw = compile_GeomFromWKB_Oracle element compiler kw"

definition Oracle_ST_GeomFromEWKT :: "'kw compile_fn" where
  "Oracle_ST_GeomFromEWKT element compiler kw = compile_ST_GeomFromText_Oracle element compiler kw"

definition Oracle_ST_GeomFromText :: "'kw compile_fn" where
  "Oracle_ST_GeomFromText element compiler kw = compile_ST_GeomFromText_Oracle element compiler kw"

text \<open>
  The registrations of \<^verbatim>\<open>oracle.py\<close> in the order of the source: the default mapping
  first, then the decorated functions. If the default mapping raises, the import of the
  module ends there.
\<close>

definition oracle_module :: "(string \<Rightarrow> bool) \<Rightarrow> 'kw registry \<Rightarrow> 'kw registry \<times> (error + unit)" where
  "oracle_module functions reg =
     (case register_oracle_mapping functions ORACLE_FUNCTIONS reg of
        (reg, Inl e) \<Rightarrow> (reg, Inl e)
      | (reg, Inr _) \<Rightarrow>
          (let reg = compiles ''ST_Within'' ''oracle'' Oracle_ST_Within reg;
               reg = compiles ''ST_GeomFromEWKB'' ''oracle'' Oracle_ST_GeomFromEWKB reg;
               reg = compiles ''ST_GeomFromWKB'' ''oracle'' Oracle_ST_GeomFromWKB reg;
               reg = compiles ''ST_GeomFromEWKT'' ''oracle'' Oracle_ST_GeomFromEWKT reg;
               reg = compiles ''ST_GeomFromText'' ''oracle'' Oracle_ST_GeomFromText reg
           in (reg, Inr ())))"

section \<open>Lifecycle hooks\<close>

text \<open>
  A hook is called for its effects. Its model gives back the value returned, the arguments
  as the call leaves them, and the SQL statements the call executed, in order.
  The hooks of both modules have the body \<^verbatim>\<open>pass\<close>.
\<close>

definition mssql_create_spatial_index ::
  "'bind \<Rightarrow> 'table \<Rightarrow> 'col \<Rightarrow> pyvalue \<times> ('bind \<times> 'table \<times> 'col) \<times> string list" where
  "mssql_create_spatial_index bind table col = (PyNone, (bind, table, col), [])"

definition mssql_before_create ::
  "'table \<Rightarrow> 'bind \<Rightarrow> 'kw \<Rightarrow> pyvalue \<times> ('table \<times> 'bind \<times> 'kw) \<times> string list" where
  "mssql_before_create table bind kw = (PyNone, (table, bind, kw), [])"

definition mssql_after_create ::
  "'table \<Rightarrow> 'bind \<Rightarrow> 'kw \<Rightarrow> pyvalue \<times> ('table \<times> 'bind \<times> 'kw) \<times> string list" where
  "mssql_after_create table bind kw = (PyNone, (table, bind, kw), [])"

definition mssql_before_drop ::
  "'table \<Rightarrow> 'bind \<Rightarrow> 'kw \<Rightarrow> pyvalue \<times> ('table \<times> 'bind \<times> 'kw) \<times> string list" where
  "mssql_before_drop table bind kw = (PyNone, (table, bind, kw), [])"

definition mssql_after_drop ::
  "'table \<Rightarrow> 'bind \<Rightarrow> 'kw \<Rightarrow> pyvalue \<times> ('table \<times> 'bind \<times> 'kw) \<times> string list" where
  "mssql_after_drop table bind kw = (PyNone, (table, bind, kw), [])"

definition oracle_create_spatial_index ::
  "'bind \<Rightarrow> 'table \<Rightarrow> 'col \<Rightarrow> pyvalue \<times> ('bind \<times> 'table \<times> 'col) \<times> string list" where
  "oracle_create_spatial_index bind table col = (PyNone, (bind, table, col), [])"

definition oracle_before_create ::
  "'table \<Rightarrow> 'bind \<Rightarrow> 'kw \<Rightarrow> pyvalue \<times> ('table \<times> 'bind \<times> 'kw) \<times> string list" where
  "oracle_before_create table bind kw = (PyNone, (table, bind, kw), [])"

definition oracle_after_create ::
  "'table \<Rightarrow> 'bind \<Rightarrow> 'kw \<Rightarrow> pyvalue \<times> ('table \<times> 'bind \<times> 'kw) \<times> string list" where
  "oracle_after_create table bind kw = (PyNone, (table, bind, kw), [])"

definition oracle_before_drop ::
  "'table \<Rightarrow> 'bind \<Rightarrow> 'kw \<Rightarrow> pyvalue \<times> ('table \<times> 'bind \<times> 'kw) \<times> string list" where
  "oracle_before_drop table bind kw = (PyNone, (table, bind, kw), [])"

definition oracle_after_drop ::
  "'table \<Rightarrow> 'bind \<Rightarrow> 'kw \<Rightarrow> pyvalue \<times> ('table \<times> 'bind \<times> 'kw) \<times> string list" where
  "oracle_after_drop table bind kw = (PyNone, (table, bind, kw), [])"

section \<open>Reflection of a geometry column\<close>

text \<open>
  The column type is a \<^verbatim>\<open>Geometry\<close> or something else; \<^verbatim>\<open>column_info.get("type")\<close> may
  also find no type. The dictionary \<^verbatim>\<open>column_info\<close> of the host ORM always has a name.
\<close>

datatype column_type = Geometry geometry | OtherType

record column_info =
  ci_name :: string
  ci_type :: "column_type option"

record table =
  table_schema :: "string option"
  table_name :: string

text \<open>
  \<^verbatim>\<open>inspector.bind.execute(text(statement)).fetchone()\<close> is the database's answer: the
  first row of the result, or nothing. The database is taken to answer every statement.
  A row is the list of its columns, and an empty row is false in \<^verbatim>\<open>if srid_res:\<close>.
\<close>

record inspector =
  fetchone :: "string \<Rightarrow> int list option"

definition mssql_reflect_geometry_column ::
  "inspector \<Rightarrow> table \<Rightarrow> column_info \<Rightarrow> pyvalue \<times> (inspector \<times> table \<times> column_info) \<times> string list" where
  "mssql_reflect_geometry_column inspector table column_info =
     (case ci_type column_info of
        Some (Geometry g) \<Rightarrow>
          if srid g = - 1 then
            (let statement = ''SELECT TOP(1) '' @ ci_name column_info @ ''.STSrid from ''
                               @ py_str_opt (table_schema table) @ ''.'' @ table_name table;
                 srid_res = fetchone inspector statement
             in case srid_res of
                  Some (s # _) \<Rightarrow>
                    (PyNone,
                     (inspector, table, column_info\<lparr>ci_type := Some (Geometry (g\<lparr>srid := s\<rparr>))\<rparr>),
                     [statement])
                | _ \<Rightarrow> (PyNone, (inspector, table, column_info), [statement]))
          else (PyNone, (inspector, table, column_info), [])
      | _ \<Rightarrow> (PyNone, (inspector, table, column_info), []))"

definition oracle_reflect_geometry_column ::
  "inspector \<Rightarrow> table \<Rightarrow> column_info \<Rightarrow> pyvalue \<times> (inspector \<times> table \<times> column_info) \<times> string list" where
  "oracle_reflect_geometry_column inspector table column_info =
     (case ci_type column_info of
        Some (Geometry g) \<Rightarrow>
          if srid g = - 1 then
            (let statement = ''SELECT SDO_SRID FROM MDSYS.SDO_GEOM_METADATA_TABLE ''
                               @ ''WHERE SDO_TABLE_NAME='' @ [CHR 0x27] @ py_str_opt (table_schema table)
                               @ ''.'' @ py_upper (table_name table) @ [CHR 0x27] @ '' ''
                               @ ''AND SDO_COLUMN_NAME='' @ [CHR 0x27] @ py_upper (ci_name column_info)
                               @ [CHR 0x27];
                 srid_res = fetchone inspector statement
             in case srid_res of
                  Some (s # _) \<Rightarrow>
                    (PyNone,
                     (inspector, table, column_info\<lparr>ci_type := Some (Geometry (g\<lparr>srid := s\<rparr>))\<rparr>),
                     [statement])
                | _ \<Rightarrow> (PyNone, (inspector, table, column_info), [statement]))
          else (PyNone, (inspector, table, column_info), [])
      | _ \<Rightarrow> (PyNone, (inspector, table, column_info), []))"

section \<open>Loading Oracle Spatial\<close>

text \<open>
  The DBAPI connection answers the statement its cursor executes with the first row, or
  with nothing (\<^verbatim>\<open>fetchone()\<close> is then \<^verbatim>\<open>None\<close>, and indexing it raises
  \<^verbatim>\<open>TypeError\<close>). Each function gives back its outcome and the statements it executed.
\<close>

record dbapi_conn =
  cursor_fetchone :: "string \<Rightarrow> string list option"

definition load_oracle_spatial_driver ::
  "dbapi_conn \<Rightarrow> 'a list \<Rightarrow> (error + pyvalue) \<times> string list" where
  "load_oracle_spatial_driver conn args =
     (let statement = ''SELECT banner FROM v$version WHERE banner LIKE '' @ [CHR 0x27] @ ''Oracle%'' @ [CHR 0x27]
      in case cursor_fetchone conn statement of
           None \<Rightarrow> (Inl TypeError, [statement])
         | Some [] \<Rightarrow> (Inl IndexError, [statement])
         | Some (banner # _) \<Rightarrow>
             if py_find banner ''Express'' \<noteq> - 1
             then (Inl (RuntimeError ''The Express edition of the Oracle database is not supported.''),
                   [statement])
             else (Inr PyNone, [statement]))"

definition init_oracle_spatial :: "dbapi_conn \<Rightarrow> 'a list \<Rightarrow> (error + pyvalue) \<times> string list" where
  "init_oracle_spatial conn args = (Inr PyNone, [])"

text \<open>
  \<^verbatim>\<open>load_oracle_spatial(*args, **kwargs)\<close>, called with the connection as first positional
  argument. The keyword arguments go to \<^verbatim>\<open>init_oracle_spatial\<close> only, whose signature
  \<^verbatim>\<open>(dbapi_conn, *args)\<close> accepts none once the connection is given by position, so that
  call raises \<^verbatim>\<open>TypeError\<close> when there is any.
\<close>

definition load_oracle_spatial ::
  "dbapi_conn \<Rightarrow> 'a list \<Rightarrow> (string \<times> 'v) list \<Rightarrow> (error + pyvalue) \<times> string list" where
  "load_oracle_spatial conn args kwargs =
     (case load_oracle_spatial_driver conn args of
        (Inl e, executed) \<Rightarrow> (Inl e, executed)
      | (Inr _, executed) \<Rightarrow>
          if kwargs \<noteq> [] then (Inl TypeError, executed)
          else (case init_oracle_spatial conn args of
                  (Inl e, executed') \<Rightarrow> (Inl e, executed @ executed')
                | (Inr _, executed') \<Rightarrow> (Inr PyNone, executed @ executed')))"

section \<open>Sample inputs\<close>

text \<open>
  Concrete instances of the parameters, for evaluating the model: a compiler that writes a
  column as its text, a bind parameter as a placeholder and a clause list separated by
  commas; a formatter that agrees with Python on \<^verbatim>\<open>None\<close>, integers and strings; a
  namespace with the function classes the two modules name.
\<close>

fun sample_clause_sql :: "clause \<Rightarrow> string" where
  "sample_clause_sql (BindParameter v) = '':param''"
| "sample_clause_sql (ColumnClause t) = t"

fun sample_process :: "visitable \<Rightarrow> unit \<Rightarrow> string" where
  "sample_process (Clause c) kw = sample_clause_sql c"
| "sample_process (ClauseList cs) kw = py_join '', '' (map sample_clause_sql cs)"

definition sample_compiler :: "unit compiler" where
  "sample_compiler = \<lparr>process = sample_process\<rparr>"

fun sample_format :: "pyvalue \<Rightarrow> string" where
  "sample_format PyNone = ''None''"
| "sample_format (PyInt i) = py_str_int i"
| "sample_format (PyStr s) = s"
| "sample_format (PyBytes bs) = bytes_hex bs"
| "sample_format (PyMemoryview bs) = bytes_hex bs"

definition sample_functions :: "string \<Rightarrow> bool" where
  "sample_functions c \<longleftrightarrow>
     c \<in> set [''ST_AsBinary'', ''ST_AsWKB'', ''ST_AsEWKB'', ''ST_AsGeoJSON'', ''ST_GeomFromWKB'',
              ''ST_GeomFromEWKB'', ''ST_GeomFromEWKT'', ''ST_GeomFromText'', ''ST_Within'',
              ''ST_DWithin'', ''ST_CoveredBy'', ''ST_Relate'', ''ST_Area'']"

definition sample_registry :: "unit registry" where
  "sample_registry = Map.empty"

text \<open>A database that reports SRID 4326 for every column, a connection to an
  Enterprise edition and a connection to an Express edition.\<close>

definition sample_inspector :: inspector where
  "sample_inspector = \<lparr>fetchone = (\<lambda>statement. Some [4326])\<rparr>"

definition sample_conn :: dbapi_conn where
  "sample_conn =
     \<lparr>cursor_fetchone = (\<lambda>statement. Some [''Oracle Database 19c Enterprise Edition Release 19.0.0.0.0''])\<rparr>"

definition sample_express_conn :: dbapi_conn where
  "sample_express_conn =
     \<lparr>cursor_fetchone = (\<lambda>statement. Some [''Oracle Database 21c Express Edition''])\<rparr>"

section \<open>Properties of the string operations\<close>

lemma py_split_not_Nil: "py_split sep s \<noteq> []"
  by (induction s) (auto split: list.splits)

lemma py_join_py_split: "py_join [sep] (py_split sep s) = s"
proof (induction s)
  case Nil
  show ?case by simp
next
  case (Cons c cs)
  show ?case
  proof (cases "c = sep")
    case True
    obtain x xs where sp: "py_split sep cs = x # xs"
      using py_split_not_Nil by (cases "py_split sep cs") auto
    with True Cons show ?thesis by simp
  next
    case False
    obtain x xs where sp: "py_split sep cs = x # xs"
      using py_split_not_Nil by (cases "py_split sep cs") auto
    with False Cons show ?thesis by (cases xs) auto
  qed
qed

lemma length_py_split: "length (py_split sep s) = Suc (length (filter (\<lambda>c. c = sep) s))"
proof (induction s)
  case Nil
  show ?case by simp
next
  case (Cons c cs)
  obtain x xs where sp: "py_split sep cs = x # xs"
    using py_split_not_Nil by (cases "py_split sep cs") auto
  with Cons show ?case by auto
qed

lemma py_split_no_sep: "sep \<notin> set s \<Longrightarrow> py_split sep s = [s]"
  by (induction s) auto

lemma py_split_append_sep:
  "sep \<notin> set xs \<Longrightarrow> py_split sep (xs @ sep # ys) = xs # py_split sep ys"
  by (induction xs) auto

lemma py_split_first_chunk:
  assumes "sep \<in> set s"
  shows "py_split sep s =
           takeWhile (\<lambda>c. c \<noteq> sep) s # py_split sep (drop (Suc (length (takeWhile (\<lambda>c. c \<noteq> sep) s))) s)"
proof -
  let ?h = "takeWhile (\<lambda>c. c \<noteq> sep) s"
  have d: "dropWhile (\<lambda>c. c \<noteq> sep) s \<noteq> []"
    using assms by (simp add: dropWhile_eq_Nil_conv) 
  then obtain r where r: "dropWhile (\<lambda>c. c \<noteq> sep) s = sep # r"
    using hd_dropWhile [of "\<lambda>c. c \<noteq> sep" s] by (cases "dropWhile (\<lambda>c. c \<noteq> sep) s") auto
  have s: "s = ?h @ sep # r"
    using takeWhile_dropWhile_id [of "\<lambda>c. c \<noteq> sep" s] r by simp
  have nin: "sep \<notin> set ?h"
    using set_takeWhileD by fastforce
  have "drop (Suc (length ?h)) s = r"
  proof -
    have "drop (Suc (length ?h)) (?h @ sep # r) = r" by simp
    with s show ?thesis by simp
  qed
  moreover have "py_split sep (?h @ sep # r) = ?h # py_split sep r"
    using nin by (rule py_split_append_sep)
  ultimately show ?thesis using s by simp
qed

lemma sep_in_set_if_chunks: "length (py_split sep s) > 1 \<Longrightarrow> sep \<in> set s"
  by (rule ccontr) (simp add: py_split_no_sep)

lemma fix_GIS_schema_issue_small:
  "length (py_split CHR ''.'' s) \<le> 2 \<Longrightarrow> fix_GIS_schema_issue s = s"
  using py_join_py_split [of "CHR ''.''" s] by (simp add: fix_GIS_schema_issue_def)

lemma fix_GIS_schema_issue_large:
  assumes "length (py_split CHR ''.'' s) > 2"
  shows "fix_GIS_schema_issue s = drop (Suc (length (takeWhile (\<lambda>c. c \<noteq> CHR ''.'') s))) s"
    and "py_split CHR ''.'' s = takeWhile (\<lambda>c. c \<noteq> CHR ''.'') s # py_split CHR ''.'' (fix_GIS_schema_issue s)"
proof -
  let ?r = "drop (Suc (length (takeWhile (\<lambda>c. c \<noteq> CHR ''.'') s))) s"
  have "CHR ''.'' \<in> set s"
    using assms by (intro sep_in_set_if_chunks) simp
  then have sp: "py_split CHR ''.'' s = takeWhile (\<lambda>c. c \<noteq> CHR ''.'') s # py_split CHR ''.'' ?r"
    by (rule py_split_first_chunk)
  have "fix_GIS_schema_issue s = py_join ''.'' (tl (py_split CHR ''.'' s))"
    using assms by (simp add: fix_GIS_schema_issue_def)
  also have "\<dots> = py_join [CHR ''.''] (py_split CHR ''.'' ?r)"
    using sp by simp
  also have "\<dots> = ?r"
    by (rule py_join_py_split)
  finally show f: "fix_GIS_schema_issue s = ?r" .
  show "py_split CHR ''.'' s = takeWhile (\<lambda>c. c \<noteq> CHR ''.'') s # py_split CHR ''.'' (fix_GIS_schema_issue s)"
    using sp f by simp
qed

lemma fix_GIS_schema_issue_decompose:
  assumes "length (py_split CHR ''.'' s) > 2"
  shows "s = hd (py_split CHR ''.'' s) @ ''.'' @ fix_GIS_schema_issue s"
proof -
  have "s = py_join [CHR ''.''] (py_split CHR ''.'' s)"
    by (simp add: py_join_py_split)
  also have "\<dots> = py_join [CHR ''.'']
      (takeWhile (\<lambda>c. c \<noteq> CHR ''.'') s # py_split CHR ''.'' (fix_GIS_schema_issue s))"
    using fix_GIS_schema_issue_large(2) [OF assms] by simp
  also have "\<dots> = takeWhile (\<lambda>c. c \<noteq> CHR ''.'') s @ ''.'' @
      py_join [CHR ''.''] (py_split CHR ''.'' (fix_GIS_schema_issue s))"
    using py_split_not_Nil [of "CHR ''.''" "fix_GIS_schema_issue s"]
    by (cases "py_split CHR ''.'' (fix_GIS_schema_issue s)") auto
  also have "\<dots> = takeWhile (\<lambda>c. c \<noteq> CHR ''.'') s @ ''.'' @ fix_GIS_schema_issue s"
    by (simp only: py_join_py_split)
  also have "takeWhile (\<lambda>c. c \<noteq> CHR ''.'') s = hd (py_split CHR ''.'' s)"
    using fix_GIS_schema_issue_large(2) [OF assms] by simp
  finally show ?thesis .
qed

lemma length_py_split_fix_GIS_schema_issue:
  assumes "length (py_split CHR ''.'' s) > 2"
  shows "Suc (length (py_split CHR ''.'' (fix_GIS_schema_issue s))) = length (py_split CHR ''.'' s)"
  using arg_cong [OF fix_GIS_schema_issue_large(2) [OF assms], of length] by simp

lemma fix_GIS_schema_issue_not_idempotent:
  assumes "length (py_split CHR ''.'' s) \<ge> 4"
  shows "fix_GIS_schema_issue (fix_GIS_schema_issue s) \<noteq> fix_GIS_schema_issue s"
proof
  assume eq: "fix_GIS_schema_issue (fix_GIS_schema_issue s) = fix_GIS_schema_issue s"
  have a: "length (py_split CHR ''.'' s) > 2" using assms by simp
  have b: "length (py_split CHR ''.'' (fix_GIS_schema_issue s)) > 2"
    using length_py_split_fix_GIS_schema_issue [OF a] assms by simp
  from length_py_split_fix_GIS_schema_issue [OF b] eq show False by simp
qed

section \<open>Schema removal: the chunks of a clause\<close>

text \<open>
  Claim C8. The chunks of \<open>s\<close> are those of \<^verbatim>\<open>s.split('.')\<close>, one more than there are
  dots in \<open>s\<close>. When \<open>s\<close> has at most two chunks, \<open>fix_GIS_schema_issue s\<close> is \<open>s\<close>. When it
  has more, \<open>s\<close> is its first chunk, a dot and \<open>fix_GIS_schema_issue s\<close>, and the result has
  one chunk fewer. So on four or more chunks one call leaves more than two chunks and a
  second call changes the text again: the function is not idempotent there, and
  \<open>a.b.c.d\<close> becomes \<open>b.c.d\<close>.
\<close>

theorem fix_GIS_schema_issue_chunks:
  "length (py_split CHR ''.'' s) = Suc (length (filter (\<lambda>c. c = CHR ''.'') s)) \<and>
   (length (py_split CHR ''.'' s) \<le> 2 \<longrightarrow> fix_GIS_schema_issue s = s) \<and>
   (length (py_split CHR ''.'' s) > 2 \<longrightarrow>
      s = hd (py_split CHR ''.'' s) @ ''.'' @ fix_GIS_schema_issue s \<and>
      py_split CHR ''.'' (fix_GIS_schema_issue s) = tl (py_split CHR ''.'' s)) \<and>
   (length (py_split CHR ''.'' s) \<ge> 4 \<longrightarrow>
      length (py_split CHR ''.'' (fix_GIS_schema_issue s)) > 2 \<and>
      fix_GIS_schema_issue (fix_GIS_schema_issue s) \<noteq> fix_GIS_schema_issue s) \<and>
   fix_GIS_schema_issue ''a.b.c.d'' = ''b.c.d''"
proof (intro conjI impI)
  show "length (py_split CHR ''.'' s) = Suc (length (filter (\<lambda>c. c = CHR ''.'') s))"
    by (rule length_py_split)
next
  assume "length (py_split CHR ''.'' s) \<le> 2"
  then show "fix_GIS_schema_issue s = s"
    by (rule fix_GIS_schema_issue_small)
next
  assume "length (py_split CHR ''.'' s) > 2"
  then show "s = hd (py_split CHR ''.'' s) @ ''.'' @ fix_GIS_schema_issue s"
    by (rule fix_GIS_schema_issue_decompose)
next
  assume a: "length (py_split CHR ''.'' s) > 2"
  show "py_split CHR ''.'' (fix_GIS_schema_issue s) = tl (py_split CHR ''.'' s)"
    using fix_GIS_schema_issue_large(2) [OF a] by simp
next
  assume a: "length (py_split CHR ''.'' s) \<ge> 4"
  then have b: "length (py_split CHR ''.'' s) > 2" by simp
  show "length (py_split CHR ''.'' (fix_GIS_schema_issue s)) > 2"
    using length_py_split_fix_GIS_schema_issue [OF b] a by simp
next
  assume "length (py_split CHR ''.'' s) \<ge> 4"
  then show "fix_GIS_schema_issue (fix_GIS_schema_issue s) \<noteq> fix_GIS_schema_issue s"
    by (rule fix_GIS_schema_issue_not_idempotent)
next
  show "fix_GIS_schema_issue ''a.b.c.d'' = ''b.c.d''"
    by (simp add: fix_GIS_schema_issue_def)
qed

theorem fix_GIS_schema_issue_chunks_witness:
  "length (py_split CHR ''.'' ''db.dbo.roads.geom'') = 4 \<and>
   fix_GIS_schema_issue ''db.dbo.roads.geom'' = ''dbo.roads.geom'' \<and>
   length (py_split CHR ''.'' (fix_GIS_schema_issue ''db.dbo.roads.geom'')) > 2 \<and>
   fix_GIS_schema_issue (fix_GIS_schema_issue ''db.dbo.roads.geom'') \<noteq> fix_GIS_schema_issue ''db.dbo.roads.geom'' \<and>
   length (py_split CHR ''.'' ''roads.geom'') \<le> 2 \<and>
   fix_GIS_schema_issue ''roads.geom'' = ''roads.geom''"
proof -
  have four: "length (py_split CHR ''.'' ''db.dbo.roads.geom'') = 4" by simp
  have two: "length (py_split CHR ''.'' ''roads.geom'') \<le> 2" by simp
  have v: "fix_GIS_schema_issue ''db.dbo.roads.geom'' = ''dbo.roads.geom''"
    by (simp add: fix_GIS_schema_issue_def)
  show ?thesis
    using fix_GIS_schema_issue_chunks [of "''db.dbo.roads.geom''"]
          fix_GIS_schema_issue_chunks [of "''roads.geom''"] four two v
    by simp
qed

section \<open>Dispatch after the import of a module\<close>

lemma mssql_module_lookup:
  "mssql_module fmt reg (''ST_AsBinary'', ''mssql'') = Some STAsBinary"
  "mssql_module fmt reg (''ST_AsWKB'', ''mssql'') = Some STAsBinary"
  "mssql_module fmt reg (''ST_AsEWKB'', ''mssql'') = Some STAsBinary"
  "mssql_module fmt reg (''ST_GeomFromWKB'', ''mssql'') = Some STGeomFromWKB"
  "mssql_module fmt reg (''ST_GeomFromEWKB'', ''mssql'') = Some STGeomFromWKB"
  "mssql_module fmt reg (''ST_GeomFromEWKT'', ''mssql'') = Some STGeomFromText"
  "mssql_module fmt reg (''ST_Within'', ''mssql'') = Some STWithin"
  "mssql_module fmt reg (''ST_DWithin'', ''mssql'') = Some (STDWithin fmt)"
  "mssql_module fmt reg (''ST_CoveredBy'', ''mssql'') = Some STCoveredBy"
  "mssql_module fmt reg (''ST_Relate'', ''mssql'') = Some (STRelate fmt)"
  by (simp_all add: mssql_module_def compiles_def)

lemma schema_removed:
  "(length (py_split CHR ''.'' t) \<le> 2 \<longrightarrow> fix_GIS_schema_issue t = t) \<and>
   (length (py_split CHR ''.'' t) > 2 \<longrightarrow> t = hd (py_split CHR ''.'' t) @ ''.'' @ fix_GIS_schema_issue t)"
  using fix_GIS_schema_issue_small fix_GIS_schema_issue_decompose by blast

section \<open>MSSQL: \<open>ST_Within\<close>\<close>

text \<open>
  Claim C1, as stated, at an element without clauses: \<^verbatim>\<open>element.clauses.clauses[0]\<close>
  raises \<^verbatim>\<open>IndexError\<close>, and no text is returned.
\<close>

theorem STWithin_no_clauses_counterexample:
  "compile_element (mssql_module sample_format sample_registry) ''mssql''
     \<lparr>cls = ''ST_Within'', element_identifier = ''ST_Within'', clauses = [], etype = \<lparr>srid = - 1\<rparr>\<rparr>
     sample_compiler ()
   = Some (\<lparr>cls = ''ST_Within'', element_identifier = ''ST_Within'', clauses = [], etype = \<lparr>srid = - 1\<rparr>\<rparr>,
           Inl IndexError)"
  by (simp add: compile_element_def mssql_module_lookup STWithin_def)

text \<open>
  Claim C1, amended. For every \<open>ST_Within\<close> element with at least one clause, compiled
  under the mssql dialect, the element is left as it is and the text is
  \<open>obj.STWithin(args)=1\<close>: \<open>args\<close> is the compilation of the clauses after the first, and
  \<open>obj\<close> is \<open>fix_GIS_schema_issue\<close> of the compiled first clause \<open>t\<close>, which is \<open>t\<close> itself
  when \<open>t\<close> has at most two dot-separated parts, and \<open>t\<close> without its first part and the dot
  after it otherwise.
\<close>

theorem STWithin_compiled:
  assumes "cls element = ''ST_Within''" and "clauses element = first # others"
  shows "compile_element (mssql_module fmt reg) ''mssql'' element compiler kw =
           Some (element,
                 Inr (fix_GIS_schema_issue (process compiler (Clause first) kw) @ ''.STWithin(''
                      @ process compiler (ClauseList others) kw @ '')=1'')) \<and>
         (length (py_split CHR ''.'' (process compiler (Clause first) kw)) \<le> 2 \<longrightarrow>
            fix_GIS_schema_issue (process compiler (Clause first) kw) = process compiler (Clause first) kw) \<and>
         (length (py_split CHR ''.'' (process compiler (Clause first) kw)) > 2 \<longrightarrow>
            process compiler (Clause first) kw =
              hd (py_split CHR ''.'' (process compiler (Clause first) kw)) @ ''.''
              @ fix_GIS_schema_issue (process compiler (Clause first) kw))"
proof -
  have "compile_element (mssql_module fmt reg) ''mssql'' element compiler kw =
          Some (element,
                Inr (fix_GIS_schema_issue (process compiler (Clause first) kw) @ ''.STWithin(''
                     @ process compiler (ClauseList others) kw @ '')=1''))"
    using assms by (simp add: compile_element_def mssql_module_lookup STWithin_def)
  then show ?thesis
    using schema_removed [of "process compiler (Clause first) kw"] by simp
qed

theorem STWithin_compiled_witness:
  "compile_element (mssql_module sample_format sample_registry) ''mssql''
     \<lparr>cls = ''ST_Within'', element_identifier = ''ST_Within'',
      clauses = [ColumnClause ''dbo.roads.geom'', BindParameter (PyStr ''POINT(0 0)'')],
      etype = \<lparr>srid = - 1\<rparr>\<rparr>
     sample_compiler ()
   = Some (\<lparr>cls = ''ST_Within'', element_identifier = ''ST_Within'',
            clauses = [ColumnClause ''dbo.roads.geom'', BindParameter (PyStr ''POINT(0 0)'')],
            etype = \<lparr>srid = - 1\<rparr>\<rparr>,
           Inr ''roads.geom.STWithin(:param)=1'')"
proof -
  let ?e = "\<lparr>cls = ''ST_Within'', element_identifier = ''ST_Within'',
      clauses = [ColumnClause ''dbo.roads.geom'', BindParameter (PyStr ''POINT(0 0)'')],
      etype = \<lparr>srid = - 1\<rparr>\<rparr>"
  have c: "cls ?e = ''ST_Within''" by simp
  have l: "clauses ?e = ColumnClause ''dbo.roads.geom'' # [BindParameter (PyStr ''POINT(0 0)'')]" by simp
  show ?thesis
    using STWithin_compiled [OF c l, of sample_format sample_registry sample_compiler "()"]
    by (simp add: sample_compiler_def fix_GIS_schema_issue_def)
qed

section \<open>MSSQL: \<open>ST_DWithin\<close>\<close>

text \<open>
  Claim C2, as stated, at an element with two clauses whose last clause is a column: a
  column has no \<^verbatim>\<open>value\<close> attribute, \<^verbatim>\<open>list(element.clauses)[-1].value\<close> raises
  \<^verbatim>\<open>AttributeError\<close>, and no text is returned.
\<close>

theorem STDWithin_column_counterexample:
  "compile_element (mssql_module sample_format sample_registry) ''mssql''
     \<lparr>cls = ''ST_DWithin'', element_identifier = ''ST_DWithin'',
      clauses = [ColumnClause ''roads.geom'', ColumnClause ''roads.radius''],
      etype = \<lparr>srid = - 1\<rparr>\<rparr>
     sample_compiler ()
   = Some (\<lparr>cls = ''ST_DWithin'', element_identifier = ''ST_DWithin'',
            clauses = [ColumnClause ''roads.geom'', ColumnClause ''roads.radius''],
            etype = \<lparr>srid = - 1\<rparr>\<rparr>,
           Inl AttributeError)"
  by (simp add: compile_element_def mssql_module_lookup STDWithin_def clause_value_def)

text \<open>
  Claim C2, amended. For every \<open>ST_DWithin\<close> element with at least two clauses whose last
  clause is a bind parameter, compiled under the mssql dialect, the element is left as it
  is and the text is \<open>obj.STDistance(middle) <= d\<close>: \<open>obj\<close> is \<open>fix_GIS_schema_issue\<close> of
  the compiled first clause, \<open>middle\<close> is the compilation of the clauses strictly between
  the first and the last, and \<open>d\<close> is the value of the last clause as Python's formatting
  (\<open>fmt\<close>) writes it.
\<close>

theorem STDWithin_compiled:
  assumes "cls element = ''ST_DWithin''"
    and "clauses element = first # middle @ [BindParameter d]"
  shows "compile_element (mssql_module fmt reg) ''mssql'' element compiler kw =
           Some (element,
                 Inr (fix_GIS_schema_issue (process compiler (Clause first) kw) @ ''.STDistance(''
                      @ process compiler (ClauseList middle) kw @ '') <= '' @ fmt d))"
  using assms
  by (simp add: compile_element_def mssql_module_lookup STDWithin_def clause_value_def butlast_append)

theorem STDWithin_compiled_witness:
  "compile_element (mssql_module sample_format sample_registry) ''mssql''
     \<lparr>cls = ''ST_DWithin'', element_identifier = ''ST_DWithin'',
      clauses = [ColumnClause ''dbo.roads.geom'', BindParameter (PyStr ''POINT(0 0)''), BindParameter (PyInt 10)],
      etype = \<lparr>srid = - 1\<rparr>\<rparr>
     sample_compiler ()
   = Some (\<lparr>cls = ''ST_DWithin'', element_identifier = ''ST_DWithin'',
            clauses = [ColumnClause ''dbo.roads.geom'', BindParameter (PyStr ''POINT(0 0)''), BindParameter (PyInt 10)],
            etype = \<lparr>srid = - 1\<rparr>\<rparr>,
           Inr ''roads.geom.STDistance(:param) <= 10'')"
proof -
  let ?e = "\<lparr>cls = ''ST_DWithin'', element_identifier = ''ST_DWithin'',
      clauses = [ColumnClause ''dbo.roads.geom'', BindParameter (PyStr ''POINT(0 0)''), BindParameter (PyInt 10)],
      etype = \<lparr>srid = - 1\<rparr>\<rparr>"
  have c: "cls ?e = ''ST_DWithin''" by simp
  have l: "clauses ?e = ColumnClause ''dbo.roads.geom'' # [BindParameter (PyStr ''POINT(0 0)'')] @ [BindParameter (PyInt 10)]"
    by simp
  show ?thesis
    using STDWithin_compiled [OF c l, of sample_format sample_registry sample_compiler "()"]
    by (simp add: sample_compiler_def fix_GIS_schema_issue_def py_str_int_def)
qed

section \<open>MSSQL: \<open>ST_GeomFromWKB\<close> and \<open>ST_GeomFromEWKB\<close>\<close>

text \<open>
  Claim C3, as stated, at an element whose only clause is a column, and at an element
  without clauses: \<^verbatim>\<open>list(element.clauses)[0].value\<close> raises \<^verbatim>\<open>AttributeError\<close> on the
  first and \<^verbatim>\<open>IndexError\<close> on the second, whatever the SRID, and no text is returned.
\<close>

theorem STGeomFromWKB_counterexample:
  "compile_element (mssql_module sample_format sample_registry) ''mssql''
     \<lparr>cls = ''ST_GeomFromWKB'', element_identifier = ''ST_GeomFromWKB'',
      clauses = [ColumnClause ''uploads.wkb''], etype = \<lparr>srid = 4326\<rparr>\<rparr>
     sample_compiler ()
   = Some (\<lparr>cls = ''ST_GeomFromWKB'', element_identifier = ''geometry::STGeomFromWKB'',
            clauses = [ColumnClause ''uploads.wkb''], etype = \<lparr>srid = 4326\<rparr>\<rparr>,
           Inl AttributeError) \<and>
   compile_element (mssql_module sample_format sample_registry) ''mssql''
     \<lparr>cls = ''ST_GeomFromEWKB'', element_identifier = ''ST_GeomFromEWKB'',
      clauses = [], etype = \<lparr>srid = - 1\<rparr>\<rparr>
     sample_compiler ()
   = Some (\<lparr>cls = ''ST_GeomFromEWKB'', element_identifier = ''geometry::STGeomFromWKB'',
            clauses = [], etype = \<lparr>srid = - 1\<rparr>\<rparr>,
           Inl IndexError)"
  by (simp add: compile_element_def mssql_module_lookup STGeomFromWKB_def clause_value_def)

text \<open>
  Claim C3, amended. For every \<open>ST_GeomFromWKB\<close> or \<open>ST_GeomFromEWKB\<close> element whose first
  clause is a bind parameter, compiled under the mssql dialect, the text is
  \<open>geometry::STGeomFromWKB(compiled, srid)\<close> when the SRID of the element's type is
  positive and \<open>geometry::STGeomFromWKB(compiled)\<close> when it is not, where \<open>compiled\<close> is the
  compilation of the clauses as the function leaves them: the first value turned into
  bytes when it is a \<^verbatim>\<open>memoryview\<close>, and unchanged otherwise.
\<close>

theorem STGeomFromWKB_compiled:
  assumes "cls element = ''ST_GeomFromWKB'' \<or> cls element = ''ST_GeomFromEWKB''"
    and "clauses element = BindParameter v # others"
  shows "compile_element (mssql_module fmt reg) ''mssql'' element compiler kw =
           (let clauses' = BindParameter (case v of PyMemoryview bs \<Rightarrow> PyBytes bs | _ \<Rightarrow> v) # others;
                compiled = process compiler (ClauseList clauses') kw
            in Some (element\<lparr>element_identifier := ''geometry::STGeomFromWKB'', clauses := clauses'\<rparr>,
                     Inr (if srid (etype element) > 0
                          then ''geometry::STGeomFromWKB('' @ compiled @ '', ''
                               @ py_str_int (srid (etype element)) @ '')''
                          else ''geometry::STGeomFromWKB('' @ compiled @ '')'')))"
proof -
  have d: "mssql_module fmt reg (cls element, ''mssql'') = Some STGeomFromWKB"
    using assms(1) by (auto simp add: mssql_module_lookup)
  have same: "element\<lparr>element_identifier := ''geometry::STGeomFromWKB'', clauses := BindParameter v # others\<rparr>
                = element\<lparr>element_identifier := ''geometry::STGeomFromWKB''\<rparr>"
    using assms(2) by (cases element) simp
  show ?thesis
    using assms(2) d same
    by (cases v) (simp_all add: compile_element_def STGeomFromWKB_def clause_value_def Let_def)
qed

theorem STGeomFromWKB_compiled_witness:
  "compile_element (mssql_module sample_format sample_registry) ''mssql''
     \<lparr>cls = ''ST_GeomFromWKB'', element_identifier = ''ST_GeomFromWKB'',
      clauses = [BindParameter (PyBytes [1, 2])], etype = \<lparr>srid = 4326\<rparr>\<rparr>
     sample_compiler ()
   = Some (\<lparr>cls = ''ST_GeomFromWKB'', element_identifier = ''geometry::STGeomFromWKB'',
            clauses = [BindParameter (PyBytes [1, 2])], etype = \<lparr>srid = 4326\<rparr>\<rparr>,
           Inr ''geometry::STGeomFromWKB(:param, 4326)'')"
proof -
  let ?e = "\<lparr>cls = ''ST_GeomFromWKB'', element_identifier = ''ST_GeomFromWKB'',
      clauses = [BindParameter (PyBytes [1, 2])], etype = \<lparr>srid = 4326\<rparr>\<rparr>"
  have c: "cls ?e = ''ST_GeomFromWKB'' \<or> cls ?e = ''ST_GeomFromEWKB''" by simp
  have l: "clauses ?e = BindParameter (PyBytes [1, 2]) # []" by simp
  have "compile_element (mssql_module sample_format sample_registry) ''mssql'' ?e sample_compiler ()
        = Some (?e\<lparr>element_identifier := ''geometry::STGeomFromWKB''\<rparr>,
                Inr ''geometry::STGeomFromWKB(:param, 4326)'')"
    using STGeomFromWKB_compiled [OF c l, of sample_format sample_registry sample_compiler "()"]
    by (simp add: compile_element_def mssql_module_lookup STGeomFromWKB_def clause_value_def
        sample_compiler_def py_str_int_def)
  then show ?thesis by simp
qed

section \<open>Oracle: dispatch and \<open>ST_Within\<close>\<close>

lemma register_oracle_mapping_other:
  "register_oracle_mapping functions mapping reg = (reg', r) \<Longrightarrow> k \<notin> (\<lambda>c. (c, ''oracle'')) ` fst ` set mapping
   \<Longrightarrow> reg' k = reg k"
proof (induction mapping arbitrary: reg)
  case Nil
  then show ?case by simp
next
  case (Cons p mapping)
  obtain c fn where p: "p = (c, fn)" by (cases p)
  show ?case
  proof (cases "functions c")
    case True
    with Cons.prems p
    have "register_oracle_mapping functions mapping (compiles c ''oracle'' (compile_oracle fn) reg) = (reg', r)"
      by (simp add: compiles_oracle_def)
    then have "reg' k = compiles c ''oracle'' (compile_oracle fn) reg k"
      using Cons.prems(2) by (intro Cons.IH) auto
    then show ?thesis
      using Cons.prems(2) p by (auto simp add: compiles_def)
  next
    case False
    with Cons.prems p show ?thesis by (simp add: compiles_oracle_def)
  qed
qed

lemma oracle_module_lookup:
  assumes "oracle_module functions reg0 = (reg, Inr ())"
  shows "reg (''ST_Within'', ''oracle'') = Some Oracle_ST_Within"
    and "reg (''ST_GeomFromEWKB'', ''oracle'') = Some Oracle_ST_GeomFromEWKB"
    and "reg (''ST_GeomFromWKB'', ''oracle'') = Some Oracle_ST_GeomFromWKB"
    and "reg (''ST_GeomFromEWKT'', ''oracle'') = Some Oracle_ST_GeomFromEWKT"
    and "reg (''ST_GeomFromText'', ''oracle'') = Some Oracle_ST_GeomFromText"
  using assms
  by (auto simp add: oracle_module_def compiles_def split: prod.splits sum.splits)

text \<open>
  Claim C4. Once \<^verbatim>\<open>oracle.py\<close> is imported, compiling any \<open>ST_Within\<close> element under the
  oracle dialect sets the identifier of the element to \<open>SDO_INSIDE\<close>, changes nothing
  else, and returns \<open>SDO_INSIDE(compiled clauses) = 'TRUE'\<close> (the quote is the character
  \<open>0x27\<close>).
\<close>

theorem Oracle_ST_Within_compiled:
  assumes "oracle_module functions reg0 = (reg, Inr ())"
    and "cls element = ''ST_Within''"
  shows "compile_element reg ''oracle'' element compiler kw =
           Some (element\<lparr>element_identifier := ''SDO_INSIDE''\<rparr>,
                 Inr (''SDO_INSIDE('' @ process compiler (ClauseList (clauses element)) kw
                      @ '') = '' @ [CHR 0x27] @ ''TRUE'' @ [CHR 0x27]))"
  using oracle_module_lookup(1) [OF assms(1)] assms(2)
  by (simp add: compile_element_def Oracle_ST_Within_def compile_ST_Within_Oracle_def)

theorem Oracle_ST_Within_compiled_witness:
  "compile_element (fst (oracle_module sample_functions sample_registry)) ''oracle''
     \<lparr>cls = ''ST_Within'', element_identifier = ''ST_Within'',
      clauses = [ColumnClause ''roads.geom'', ColumnClause ''zones.geom''],
      etype = \<lparr>srid = - 1\<rparr>\<rparr>
     sample_compiler ()
   = Some (\<lparr>cls = ''ST_Within'', element_identifier = ''SDO_INSIDE'',
            clauses = [ColumnClause ''roads.geom'', ColumnClause ''zones.geom''],
            etype = \<lparr>srid = - 1\<rparr>\<rparr>,
           Inr (''SDO_INSIDE(roads.geom, zones.geom) = '' @ [CHR 0x27] @ ''TRUE'' @ [CHR 0x27]))"
proof -
  let ?e = "\<lparr>cls = ''ST_Within'', element_identifier = ''ST_Within'',
      clauses = [ColumnClause ''roads.geom'', ColumnClause ''zones.geom''],
      etype = \<lparr>srid = - 1\<rparr>\<rparr>"
  have m: "oracle_module sample_functions sample_registry
             = (fst (oracle_module sample_functions sample_registry), Inr ())"
    by (simp add: oracle_module_def ORACLE_FUNCTIONS_def compiles_oracle_def sample_functions_def)
  have c: "cls ?e = ''ST_Within''" by simp
  show ?thesis
    using Oracle_ST_Within_compiled [OF m c, of sample_compiler "()"]
    by (simp add: sample_compiler_def)
qed

section \<open>\<open>ST_GeomFromWKB\<close> and \<open>ST_GeomFromEWKB\<close>: the element is changed in place\<close>

text \<open>
  Claim C9. When the first clause of an \<open>ST_GeomFromWKB\<close> or \<open>ST_GeomFromEWKB\<close> element
  carries a \<^verbatim>\<open>memoryview\<close>, compiling it under the mssql dialect leaves the element with
  that value replaced by the bytes, and compiling it under the oracle dialect (once
  \<^verbatim>\<open>oracle.py\<close> is imported) leaves it with that value replaced by the hexadecimal text
  of the bytes. In both cases the identifier is assigned too, the text returned is built
  from the compilation of the clauses after the replacement, and the element that comes
  back differs from the one passed in.
\<close>

theorem GeomFromWKB_mutates_element:
  assumes "cls element = ''ST_GeomFromWKB'' \<or> cls element = ''ST_GeomFromEWKB''"
    and "clauses element = BindParameter (PyMemoryview bs) # others"
  shows "(\<exists>element' text.
            compile_element (mssql_module fmt reg) ''mssql'' element compiler kw
              = Some (element', Inr text) \<and>
            element' = element\<lparr>element_identifier := ''geometry::STGeomFromWKB'',
                               clauses := BindParameter (PyBytes bs) # others\<rparr> \<and>
            text = (let compiled = process compiler (ClauseList (BindParameter (PyBytes bs) # others)) kw
                    in if srid (etype element) > 0
                       then ''geometry::STGeomFromWKB('' @ compiled @ '', ''
                            @ py_str_int (srid (etype element)) @ '')''
                       else ''geometry::STGeomFromWKB('' @ compiled @ '')'') \<and>
            element' \<noteq> element) \<and>
         (oracle_module functions reg0 = (oreg, Inr ()) \<longrightarrow>
          (\<exists>element' text.
            compile_element oreg ''oracle'' element compiler kw = Some (element', Inr text) \<and>
            element' = element\<lparr>element_identifier := ''SDO_GEOMETRY'',
                               clauses := BindParameter (PyStr (bytes_hex bs)) # others\<rparr> \<and>
            text = (let compiled = process compiler
                                     (ClauseList (BindParameter (PyStr (bytes_hex bs)) # others)) kw;
                        compiled_list = py_split CHR '','' compiled;
                        compiled = py_join '','' (compiled_list[0 := ''TO_BLOB('' @ compiled_list ! 0 @ '')''])
                    in if srid (etype element) > 0
                       then ''SDO_GEOMETRY('' @ compiled @ '', '' @ py_str_int (srid (etype element)) @ '')''
                       else ''SDO_GEOMETRY('' @ compiled @ '')'') \<and>
            element' \<noteq> element))"
    (is "?mssql \<and> (?imported \<longrightarrow> ?orcl)")
proof -
  have d: "mssql_module fmt reg (cls element, ''mssql'') = Some STGeomFromWKB"
    using assms(1) by (auto simp add: mssql_module_lookup)
  have ne: "element\<lparr>element_identifier := i, clauses := BindParameter v # others\<rparr> \<noteq> element"
    if "v \<noteq> PyMemoryview bs" for i v
  proof
    assume "element\<lparr>element_identifier := i, clauses := BindParameter v # others\<rparr> = element"
    then have "clauses (element\<lparr>element_identifier := i, clauses := BindParameter v # others\<rparr>)
                 = clauses element"
      by simp
    with assms(2) that show False by simp
  qed
  have m: ?mssql
    using assms(2) d ne [of "PyBytes bs" "''geometry::STGeomFromWKB''"]
    by (simp add: compile_element_def STGeomFromWKB_def clause_value_def Let_def)
  have o: ?orcl if imp: ?imported
  proof -
    have "oreg (cls element, ''oracle'') = Some Oracle_ST_GeomFromWKB
          \<or> oreg (cls element, ''oracle'') = Some Oracle_ST_GeomFromEWKB"
      using assms(1) oracle_module_lookup(2,3) [OF imp] by auto
    then show ?thesis
      using assms(2) ne [of "PyStr (bytes_hex bs)" "''SDO_GEOMETRY''"]
      by (auto simp add: compile_element_def Oracle_ST_GeomFromWKB_def Oracle_ST_GeomFromEWKB_def
          compile_GeomFromWKB_Oracle_def clause_value_def Let_def)
  qed
  from m o show ?thesis by blast
qed

theorem GeomFromWKB_mutates_element_witness:
  "compile_element (mssql_module sample_format sample_registry) ''mssql''
     \<lparr>cls = ''ST_GeomFromEWKB'', element_identifier = ''ST_GeomFromEWKB'',
      clauses = [BindParameter (PyMemoryview [1, 171]), BindParameter (PyInt 4326)],
      etype = \<lparr>srid = - 1\<rparr>\<rparr>
     sample_compiler ()
   = Some (\<lparr>cls = ''ST_GeomFromEWKB'', element_identifier = ''geometry::STGeomFromWKB'',
            clauses = [BindParameter (PyBytes [1, 171]), BindParameter (PyInt 4326)],
            etype = \<lparr>srid = - 1\<rparr>\<rparr>,
           Inr ''geometry::STGeomFromWKB(:param, :param)'') \<and>
   compile_element (fst (oracle_module sample_functions sample_registry)) ''oracle''
     \<lparr>cls = ''ST_GeomFromEWKB'', element_identifier = ''ST_GeomFromEWKB'',
      clauses = [BindParameter (PyMemoryview [1, 171]), BindParameter (PyInt 4326)],
      etype = \<lparr>srid = - 1\<rparr>\<rparr>
     sample_compiler ()
   = Some (\<lparr>cls = ''ST_GeomFromEWKB'', element_identifier = ''SDO_GEOMETRY'',
            clauses = [BindParameter (PyStr ''01ab''), BindParameter (PyInt 4326)],
            etype = \<lparr>srid = - 1\<rparr>\<rparr>,
           Inr ''SDO_GEOMETRY(TO_BLOB(:param), :param)'')"
proof -
  let ?e = "\<lparr>cls = ''ST_GeomFromEWKB'', element_identifier = ''ST_GeomFromEWKB'',
      clauses = [BindParameter (PyMemoryview [1, 171]), BindParameter (PyInt 4326)],
      etype = \<lparr>srid = - 1\<rparr>\<rparr>"
  have c: "cls ?e = ''ST_GeomFromWKB'' \<or> cls ?e = ''ST_GeomFromEWKB''" by simp
  have l: "clauses ?e = BindParameter (PyMemoryview [1, 171]) # [BindParameter (PyInt 4326)]" by simp
  have m: "oracle_module sample_functions sample_registry
             = (fst (oracle_module sample_functions sample_registry), Inr ())"
    by (simp add: oracle_module_def ORACLE_FUNCTIONS_def compiles_oracle_def sample_functions_def)
  have h: "bytes_hex [1, 171] = ''01ab''"
    by (simp add: bytes_hex_def hex_byte_def)
  show ?thesis
    using GeomFromWKB_mutates_element [OF c l, of sample_format sample_registry sample_compiler "()"
        sample_functions sample_registry "fst (oracle_module sample_functions sample_registry)"] m h
    by (auto simp add: sample_compiler_def)
qed

section \<open>Oracle: registered mappings\<close>

lemma register_oracle_mapping_succeeds:
  "\<forall>c \<in> set (map fst mapping). functions c \<Longrightarrow>
   register_oracle_mapping functions mapping reg
     = (fst (register_oracle_mapping functions mapping reg), Inr ())"
  by (induction mapping arbitrary: reg) (auto simp add: compiles_oracle_def)

lemma register_oracle_mapping_lookup:
  assumes "distinct (map fst mapping)"
    and "\<forall>c \<in> set (map fst mapping). functions c"
    and "(c, fn) \<in> set mapping"
  shows "fst (register_oracle_mapping functions mapping reg) (c, ''oracle'') = Some (compile_oracle fn)"
  using assms
proof (induction mapping arbitrary: reg)
  case Nil
  then show ?case by simp
next
  case (Cons p mapping)
  obtain c0 f0 where p: "p = (c0, f0)" by (cases p)
  let ?reg1 = "compiles c0 ''oracle'' (compile_oracle f0) reg"
  have step: "register_oracle_mapping functions (p # mapping) reg
                = register_oracle_mapping functions mapping ?reg1"
    using Cons.prems(2) p by (simp add: compiles_oracle_def)
  show ?case
  proof (cases "(c, fn) = (c0, f0)")
    case True
    have "(c, ''oracle'') \<notin> (\<lambda>c. (c, ''oracle'')) ` fst ` set mapping"
      using Cons.prems(1) p True by auto
    then have "fst (register_oracle_mapping functions mapping ?reg1) (c, ''oracle'')
                 = ?reg1 (c, ''oracle'')"
      using register_oracle_mapping_other [of "functions" mapping ?reg1] by (metis prod.collapse)
    then show ?thesis
      using step True by (simp add: compiles_def)
  next
    case False
    then have "(c, fn) \<in> set mapping"
      using Cons.prems(3) p by auto
    then have "fst (register_oracle_mapping functions mapping ?reg1) (c, ''oracle'')
                 = Some (compile_oracle fn)"
      using Cons.prems(1,2) by (intro Cons.IH) simp_all
    then show ?thesis
      using step by simp
  qed
qed

lemma oracle_module_default_lookup:
  assumes "oracle_module functions reg0 = (reg, Inr ())"
  shows "reg (''ST_AsBinary'', ''oracle'') = Some (compile_oracle ''SDO_UTIL.TO_WKBGEOMETRY'')"
    and "reg (''ST_AsEWKB'', ''oracle'') = Some (compile_oracle ''SDO_UTIL.TO_WKBGEOMETRY'')"
    and "reg (''ST_AsGeoJSON'', ''oracle'') = Some (compile_oracle ''SDO_UTIL.TO_GEOJSON'')"
  using assms
  by (auto simp add: oracle_module_def ORACLE_FUNCTIONS_def compiles_oracle_def compiles_def
      split: prod.splits sum.splits if_splits)

text \<open>
  Claim C5, as stated, at a mapping whose first name is no attribute of
  \<^verbatim>\<open>geoalchemy2.functions\<close>: \<^verbatim>\<open>getattr\<close> raises \<^verbatim>\<open>AttributeError\<close> at that entry, the
  loop ends, and the entry after it is never registered. \<open>ST_AsGeoJSON\<close> is an entry of
  the mapping passed, with \<open>SDO_UTIL.TO_JSON\<close>, and still compiles with the function of
  the default mapping.
\<close>

theorem register_oracle_mapping_counterexample:
  "snd (register_oracle_mapping sample_functions
          [(''ST_NoSuchFunction'', ''SDO_NONE''), (''ST_AsGeoJSON'', ''SDO_UTIL.TO_JSON'')]
          (fst (oracle_module sample_functions sample_registry)))
     = Inl AttributeError \<and>
   compile_element
     (fst (register_oracle_mapping sample_functions
             [(''ST_NoSuchFunction'', ''SDO_NONE''), (''ST_AsGeoJSON'', ''SDO_UTIL.TO_JSON'')]
             (fst (oracle_module sample_functions sample_registry))))
     ''oracle''
     \<lparr>cls = ''ST_AsGeoJSON'', element_identifier = ''ST_AsGeoJSON'',
      clauses = [ColumnClause ''roads.geom''], etype = \<lparr>srid = - 1\<rparr>\<rparr>
     sample_compiler ()
   = Some (\<lparr>cls = ''ST_AsGeoJSON'', element_identifier = ''ST_AsGeoJSON'',
            clauses = [ColumnClause ''roads.geom''], etype = \<lparr>srid = - 1\<rparr>\<rparr>,
           Inr ''SDO_UTIL.TO_GEOJSON(roads.geom)'')"
  by (simp add: oracle_module_def ORACLE_FUNCTIONS_def compiles_oracle_def sample_functions_def
      compiles_def compile_element_def compile_oracle_def sample_compiler_def)

text \<open>
  Claim C5, amended. When every name of the mapping is a function class of
  \<^verbatim>\<open>geoalchemy2.functions\<close> (the names of a dictionary are distinct),
  \<^verbatim>\<open>register_oracle_mapping\<close> returns without an exception, and afterwards every entry
  \<open>(name, oracle_fn)\<close> of the mapping compiles, under the oracle dialect, an element of
  class \<open>name\<close> to \<open>oracle_fn(compiled clauses)\<close>, leaving the element as it is. Once
  \<^verbatim>\<open>oracle.py\<close> is imported, \<open>ST_AsBinary\<close> and \<open>ST_AsEWKB\<close> compile to
  \<open>SDO_UTIL.TO_WKBGEOMETRY(compiled clauses)\<close> and \<open>ST_AsGeoJSON\<close> to
  \<open>SDO_UTIL.TO_GEOJSON(compiled clauses)\<close>.
\<close>

theorem register_oracle_mapping_compiled:
  "(distinct (map fst mapping) \<and> (\<forall>c \<in> set (map fst mapping). functions c) \<longrightarrow>
      (\<exists>reg'. register_oracle_mapping functions mapping reg = (reg', Inr ()) \<and>
         (\<forall>(c, fn) \<in> set mapping. \<forall>element compiler kw.
            cls element = c \<longrightarrow>
            compile_element reg' ''oracle'' element compiler kw =
              Some (element,
                    Inr (fn @ ''('' @ process compiler (ClauseList (clauses element)) kw @ '')''))))) \<and>
   (\<forall>oreg. oracle_module functions reg = (oreg, Inr ()) \<longrightarrow>
      (\<forall>element compiler kw.
         (cls element = ''ST_AsBinary'' \<or> cls element = ''ST_AsEWKB'' \<longrightarrow>
            compile_element oreg ''oracle'' element compiler kw =
              Some (element,
                    Inr (''SDO_UTIL.TO_WKBGEOMETRY(''
                         @ process compiler (ClauseList (clauses element)) kw @ '')''))) \<and>
         (cls element = ''ST_AsGeoJSON'' \<longrightarrow>
            compile_element oreg ''oracle'' element compiler kw =
              Some (element,
                    Inr (''SDO_UTIL.TO_GEOJSON(''
                         @ process compiler (ClauseList (clauses element)) kw @ '')'')))))"
  (is "(?wf \<longrightarrow> ?registered) \<and> ?default")
proof (intro conjI impI)
  assume wf: ?wf
  let ?reg' = "fst (register_oracle_mapping functions mapping reg)"
  have ok: "register_oracle_mapping functions mapping reg = (?reg', Inr ())"
    using wf by (intro register_oracle_mapping_succeeds) simp
  have "compile_element ?reg' ''oracle'' element compiler kw =
          Some (element, Inr (fn @ ''('' @ process compiler (ClauseList (clauses element)) kw @ '')''))"
    if "(c, fn) \<in> set mapping" and "cls element = c" for c fn element compiler kw
    using register_oracle_mapping_lookup [of mapping "functions" c fn reg] wf that
    by (simp add: compile_element_def compile_oracle_def)
  with ok show ?registered by blast
next
  show ?default
  proof (intro allI impI)
    fix oreg
    assume m: "oracle_module functions reg = (oreg, Inr ())"
    fix element :: element and compiler :: "'a compiler" and kw :: 'a
    show "(cls element = ''ST_AsBinary'' \<or> cls element = ''ST_AsEWKB'' \<longrightarrow>
            compile_element oreg ''oracle'' element compiler kw =
              Some (element,
                    Inr (''SDO_UTIL.TO_WKBGEOMETRY(''
                         @ process compiler (ClauseList (clauses element)) kw @ '')''))) \<and>
         (cls element = ''ST_AsGeoJSON'' \<longrightarrow>
            compile_element oreg ''oracle'' element compiler kw =
              Some (element,
                    Inr (''SDO_UTIL.TO_GEOJSON(''
                         @ process compiler (ClauseList (clauses element)) kw @ '')'')))"
      using oracle_module_default_lookup [OF m]
      by (auto simp add: compile_element_def compile_oracle_def)
  qed
qed

theorem register_oracle_mapping_compiled_witness:
  "register_oracle_mapping sample_functions [(''ST_Area'', ''SDO_GEOM.SDO_AREA'')] sample_registry
     = (fst (register_oracle_mapping sample_functions [(''ST_Area'', ''SDO_GEOM.SDO_AREA'')] sample_registry),
        Inr ()) \<and>
   compile_element
     (fst (register_oracle_mapping sample_functions [(''ST_Area'', ''SDO_GEOM.SDO_AREA'')] sample_registry))
     ''oracle''
     \<lparr>cls = ''ST_Area'', element_identifier = ''ST_Area'',
      clauses = [ColumnClause ''zones.geom''], etype = \<lparr>srid = - 1\<rparr>\<rparr>
     sample_compiler ()
   = Some (\<lparr>cls = ''ST_Area'', element_identifier = ''ST_Area'',
            clauses = [ColumnClause ''zones.geom''], etype = \<lparr>srid = - 1\<rparr>\<rparr>,
           Inr ''SDO_GEOM.SDO_AREA(zones.geom)'') \<and>
   compile_element (fst (oracle_module sample_functions sample_registry)) ''oracle''
     \<lparr>cls = ''ST_AsEWKB'', element_identifier = ''ST_AsEWKB'',
      clauses = [ColumnClause ''zones.geom''], etype = \<lparr>srid = - 1\<rparr>\<rparr>
     sample_compiler ()
   = Some (\<lparr>cls = ''ST_AsEWKB'', element_identifier = ''ST_AsEWKB'',
            clauses = [ColumnClause ''zones.geom''], etype = \<lparr>srid = - 1\<rparr>\<rparr>,
           Inr ''SDO_UTIL.TO_WKBGEOMETRY(zones.geom)'')"
proof -
  have wf: "distinct (map fst [(''ST_Area'', ''SDO_GEOM.SDO_AREA'')]) \<and>
            (\<forall>c \<in> set (map fst [(''ST_Area'', ''SDO_GEOM.SDO_AREA'')]). sample_functions c)"
    by (simp add: sample_functions_def)
  have m: "oracle_module sample_functions sample_registry
             = (fst (oracle_module sample_functions sample_registry), Inr ())"
    by (simp add: oracle_module_def ORACLE_FUNCTIONS_def compiles_oracle_def sample_functions_def)
  show ?thesis
    using register_oracle_mapping_compiled
            [of "[(''ST_Area'', ''SDO_GEOM.SDO_AREA'')]" sample_functions sample_registry] wf m
    by (auto simp add: sample_compiler_def)
qed

section \<open>Lifecycle hooks do nothing\<close>

text \<open>
  Claim C6. In both dialect modules the hooks \<^verbatim>\<open>create_spatial_index\<close>,
  \<^verbatim>\<open>before_create\<close>, \<^verbatim>\<open>after_create\<close>, \<^verbatim>\<open>before_drop\<close> and \<^verbatim>\<open>after_drop\<close> return
  \<^verbatim>\<open>None\<close>, execute no SQL statement and leave each of their arguments as it was, on
  every input.
\<close>

theorem lifecycle_hooks_no_effect:
  "mssql_create_spatial_index bind table col = (PyNone, (bind, table, col), []) \<and>
   mssql_before_create table bind kw = (PyNone, (table, bind, kw), []) \<and>
   mssql_after_create table bind kw = (PyNone, (table, bind, kw), []) \<and>
   mssql_before_drop table bind kw = (PyNone, (table, bind, kw), []) \<and>
   mssql_after_drop table bind kw = (PyNone, (table, bind, kw), []) \<and>
   oracle_create_spatial_index bind table col = (PyNone, (bind, table, col), []) \<and>
   oracle_before_create table bind kw = (PyNone, (table, bind, kw), []) \<and>
   oracle_after_create table bind kw = (PyNone, (table, bind, kw), []) \<and>
   oracle_before_drop table bind kw = (PyNone, (table, bind, kw), []) \<and>
   oracle_after_drop table bind kw = (PyNone, (table, bind, kw), [])"
  by (simp add: mssql_create_spatial_index_def mssql_before_create_def mssql_after_create_def
      mssql_before_drop_def mssql_after_drop_def oracle_create_spatial_index_def
      oracle_before_create_def oracle_after_create_def oracle_before_drop_def
      oracle_after_drop_def)

section \<open>Reflection: what changes and what is executed\<close>

lemma mssql_reflect_not_applicable:
  assumes "\<forall>g. ci_type column_info = Some (Geometry g) \<longrightarrow> srid g \<noteq> - 1"
  shows "mssql_reflect_geometry_column inspector table column_info
           = (PyNone, (inspector, table, column_info), [])"
  using assms
  by (auto simp add: mssql_reflect_geometry_column_def split: option.splits column_type.splits)

lemma oracle_reflect_not_applicable:
  assumes "\<forall>g. ci_type column_info = Some (Geometry g) \<longrightarrow> srid g \<noteq> - 1"
  shows "oracle_reflect_geometry_column inspector table column_info
           = (PyNone, (inspector, table, column_info), [])"
  using assms
  by (auto simp add: oracle_reflect_geometry_column_def split: option.splits column_type.splits)

lemma mssql_reflect_applicable:
  assumes "ci_type column_info = Some (Geometry g)" and "srid g = - 1"
  shows "\<exists>statement. take 7 statement = ''SELECT '' \<and>
           mssql_reflect_geometry_column inspector table column_info =
             (case fetchone inspector statement of
                None \<Rightarrow> (PyNone, (inspector, table, column_info), [statement])
              | Some [] \<Rightarrow> (PyNone, (inspector, table, column_info), [statement])
              | Some (s # _) \<Rightarrow>
                  (PyNone,
                   (inspector, table, column_info\<lparr>ci_type := Some (Geometry (g\<lparr>srid := s\<rparr>))\<rparr>),
                   [statement]))"
proof -
  let ?statement = "''SELECT TOP(1) '' @ ci_name column_info @ ''.STSrid from ''
                      @ py_str_opt (table_schema table) @ ''.'' @ table_name table"
  have "take 7 ?statement = ''SELECT ''" by simp
  moreover have "mssql_reflect_geometry_column inspector table column_info =
             (case fetchone inspector ?statement of
                None \<Rightarrow> (PyNone, (inspector, table, column_info), [?statement])
              | Some [] \<Rightarrow> (PyNone, (inspector, table, column_info), [?statement])
              | Some (s # _) \<Rightarrow>
                  (PyNone,
                   (inspector, table, column_info\<lparr>ci_type := Some (Geometry (g\<lparr>srid := s\<rparr>))\<rparr>),
                   [?statement]))"
    using assms
    by (simp add: mssql_reflect_geometry_column_def Let_def split: option.splits list.splits)
  ultimately show ?thesis by blast
qed

lemma oracle_reflect_applicable:
  assumes "ci_type column_info = Some (Geometry g)" and "srid g = - 1"
  shows "\<exists>statement. take 7 statement = ''SELECT '' \<and>
           oracle_reflect_geometry_column inspector table column_info =
             (case fetchone inspector statement of
                None \<Rightarrow> (PyNone, (inspector, table, column_info), [statement])
              | Some [] \<Rightarrow> (PyNone, (inspector, table, column_info), [statement])
              | Some (s # _) \<Rightarrow>
                  (PyNone,
                   (inspector, table, column_info\<lparr>ci_type := Some (Geometry (g\<lparr>srid := s\<rparr>))\<rparr>),
                   [statement]))"
proof -
  let ?statement = "''SELECT SDO_SRID FROM MDSYS.SDO_GEOM_METADATA_TABLE ''
                               @ ''WHERE SDO_TABLE_NAME='' @ [CHR 0x27] @ py_str_opt (table_schema table)
                               @ ''.'' @ py_upper (table_name table) @ [CHR 0x27] @ '' ''
                               @ ''AND SDO_COLUMN_NAME='' @ [CHR 0x27] @ py_upper (ci_name column_info)
                               @ [CHR 0x27]"
  have "take 7 ?statement = ''SELECT ''" by simp
  moreover have "oracle_reflect_geometry_column inspector table column_info =
             (case fetchone inspector ?statement of
                None \<Rightarrow> (PyNone, (inspector, table, column_info), [?statement])
              | Some [] \<Rightarrow> (PyNone, (inspector, table, column_info), [?statement])
              | Some (s # _) \<Rightarrow>
                  (PyNone,
                   (inspector, table, column_info\<lparr>ci_type := Some (Geometry (g\<lparr>srid := s\<rparr>))\<rparr>),
                   [?statement]))"
    using assms
    by (simp add: oracle_reflect_geometry_column_def Let_def split: option.splits list.splits)
  ultimately show ?thesis by blast
qed

text \<open>
  Claim C7. In both dialects \<^verbatim>\<open>reflect_geometry_column\<close> returns \<^verbatim>\<open>None\<close>. Unless the
  type of the column is a \<^verbatim>\<open>Geometry\<close> whose SRID is \<open>-1\<close>, it executes nothing and
  leaves its three arguments as they were. When the type is such a \<^verbatim>\<open>Geometry\<close>, it
  executes exactly one statement, a \<open>SELECT\<close>; if the database answers with a row, the
  only change is that the SRID of that \<^verbatim>\<open>Geometry\<close> becomes the first column of the row;
  if it answers with no row (or with a row without columns), nothing changes.
\<close>

theorem reflect_geometry_column_frame:
  "((\<forall>g. ci_type column_info = Some (Geometry g) \<longrightarrow> srid g \<noteq> - 1) \<longrightarrow>
      mssql_reflect_geometry_column inspector table column_info
        = (PyNone, (inspector, table, column_info), []) \<and>
      oracle_reflect_geometry_column inspector table column_info
        = (PyNone, (inspector, table, column_info), [])) \<and>
   (\<forall>g. ci_type column_info = Some (Geometry g) \<and> srid g = - 1 \<longrightarrow>
      (\<exists>statement. take 7 statement = ''SELECT '' \<and>
         mssql_reflect_geometry_column inspector table column_info =
           (case fetchone inspector statement of
              None \<Rightarrow> (PyNone, (inspector, table, column_info), [statement])
            | Some [] \<Rightarrow> (PyNone, (inspector, table, column_info), [statement])
            | Some (s # _) \<Rightarrow>
                (PyNone,
                 (inspector, table, column_info\<lparr>ci_type := Some (Geometry (g\<lparr>srid := s\<rparr>))\<rparr>),
                 [statement]))) \<and>
      (\<exists>statement. take 7 statement = ''SELECT '' \<and>
         oracle_reflect_geometry_column inspector table column_info =
           (case fetchone inspector statement of
              None \<Rightarrow> (PyNone, (inspector, table, column_info), [statement])
            | Some [] \<Rightarrow> (PyNone, (inspector, table, column_info), [statement])
            | Some (s # _) \<Rightarrow>
                (PyNone,
                 (inspector, table, column_info\<lparr>ci_type := Some (Geometry (g\<lparr>srid := s\<rparr>))\<rparr>),
                 [statement]))))"
  using mssql_reflect_not_applicable [of column_info inspector table]
        oracle_reflect_not_applicable [of column_info inspector table]
        mssql_reflect_applicable [of column_info _ inspector table]
        oracle_reflect_applicable [of column_info _ inspector table]
  by blast

theorem reflect_geometry_column_frame_witness:
  "mssql_reflect_geometry_column sample_inspector
     \<lparr>table_schema = Some ''dbo'', table_name = ''roads''\<rparr>
     \<lparr>ci_name = ''geom'', ci_type = Some (Geometry \<lparr>srid = - 1\<rparr>)\<rparr>
   = (PyNone,
      (sample_inspector, \<lparr>table_schema = Some ''dbo'', table_name = ''roads''\<rparr>,
       \<lparr>ci_name = ''geom'', ci_type = Some (Geometry \<lparr>srid = 4326\<rparr>)\<rparr>),
      [''SELECT TOP(1) geom.STSrid from dbo.roads'']) \<and>
   oracle_reflect_geometry_column sample_inspector
     \<lparr>table_schema = Some ''gis'', table_name = ''roads''\<rparr>
     \<lparr>ci_name = ''geom'', ci_type = Some (Geometry \<lparr>srid = 3857\<rparr>)\<rparr>
   = (PyNone,
      (sample_inspector, \<lparr>table_schema = Some ''gis'', table_name = ''roads''\<rparr>,
       \<lparr>ci_name = ''geom'', ci_type = Some (Geometry \<lparr>srid = 3857\<rparr>)\<rparr>),
      [])"
proof -
  have a: "ci_type \<lparr>ci_name = ''geom'', ci_type = Some (Geometry \<lparr>srid = - 1\<rparr>)\<rparr>
             = Some (Geometry \<lparr>srid = - 1\<rparr>) \<and> srid \<lparr>srid = - 1\<rparr> = - 1"
    by simp
  have b: "\<forall>g. ci_type \<lparr>ci_name = ''geom'', ci_type = Some (Geometry \<lparr>srid = 3857\<rparr>)\<rparr>
             = Some (Geometry g) \<longrightarrow> srid g \<noteq> - 1"
    by auto
  have m: "mssql_reflect_geometry_column sample_inspector
     \<lparr>table_schema = Some ''dbo'', table_name = ''roads''\<rparr>
     \<lparr>ci_name = ''geom'', ci_type = Some (Geometry \<lparr>srid = - 1\<rparr>)\<rparr>
   = (PyNone,
      (sample_inspector, \<lparr>table_schema = Some ''dbo'', table_name = ''roads''\<rparr>,
       \<lparr>ci_name = ''geom'', ci_type = Some (Geometry \<lparr>srid = 4326\<rparr>)\<rparr>),
      [''SELECT TOP(1) geom.STSrid from dbo.roads''])"
    using reflect_geometry_column_frame
            [of "\<lparr>ci_name = ''geom'', ci_type = Some (Geometry \<lparr>srid = - 1\<rparr>)\<rparr>"
                sample_inspector "\<lparr>table_schema = Some ''dbo'', table_name = ''roads''\<rparr>"] a
    by (simp add: mssql_reflect_geometry_column_def sample_inspector_def py_str_opt_def)
  show ?thesis
    using reflect_geometry_column_frame
            [of "\<lparr>ci_name = ''geom'', ci_type = Some (Geometry \<lparr>srid = 3857\<rparr>)\<rparr>"
                sample_inspector "\<lparr>table_schema = Some ''gis'', table_name = ''roads''\<rparr>"] b m
    by simp
qed

section \<open>Loading Oracle Spatial: when it raises\<close>

lemma py_find_from_sublist:
  "0 \<le> i \<Longrightarrow> (py_find_from i s sub \<noteq> - 1) = sublist sub s"
proof (induction s arbitrary: i)
  case Nil
  then show ?case by auto
next
  case (Cons c cs)
  show ?case
  proof (cases "prefix sub (c # cs)")
    case True
    then have "sublist sub (c # cs)" by (rule prefix_imp_sublist)
    with True Cons.prems show ?thesis by simp
  next
    case False
    have "(py_find_from (i + 1) cs sub \<noteq> - 1) = sublist sub cs"
      using Cons.prems by (intro Cons.IH) simp
    with False show ?thesis by (simp add: sublist_Cons_right)
  qed
qed

lemma py_find_contains:
  "(py_find s sub \<noteq> - 1) = (\<exists>before after. s = before @ sub @ after)"
  using py_find_from_sublist [of 0 s sub] by (simp add: py_find_def sublist_def)

text \<open>
  Claim C10, as stated, at a call with a keyword argument on a connection to an
  Enterprise edition: \<^verbatim>\<open>load_oracle_spatial_driver\<close> does not raise, and
  \<^verbatim>\<open>load_oracle_spatial\<close> does not complete, because the keyword argument is passed on to
  \<^verbatim>\<open>init_oracle_spatial\<close>, which accepts none.
\<close>

theorem load_oracle_spatial_kwargs_counterexample:
  "fst (load_oracle_spatial_driver sample_conn ([] :: unit list)) = Inr PyNone \<and>
   fst (load_oracle_spatial sample_conn ([] :: unit list) [(''transaction'', True)]) = Inl TypeError"
  by (simp add: load_oracle_spatial_def load_oracle_spatial_driver_def sample_conn_def py_find_def)

text \<open>
  Claim C10, amended. \<^verbatim>\<open>load_oracle_spatial_driver\<close> raises \<^verbatim>\<open>RuntimeError\<close> if and only
  if the version query returns a row whose banner contains \<open>Express\<close>. It executes that one
  query. \<^verbatim>\<open>init_oracle_spatial\<close> returns \<^verbatim>\<open>None\<close> and executes nothing. When the driver
  function does not raise and \<^verbatim>\<open>load_oracle_spatial\<close> was called without keyword
  arguments, \<^verbatim>\<open>load_oracle_spatial\<close> returns \<^verbatim>\<open>None\<close> with no effect beyond that query;
  called with a keyword argument, it raises \<^verbatim>\<open>TypeError\<close> after the query.
\<close>

theorem load_oracle_spatial_outcome:
  "((\<exists>message. fst (load_oracle_spatial_driver conn args) = Inl (RuntimeError message)) \<longleftrightarrow>
      (\<exists>banner columns before after.
         cursor_fetchone conn
           (''SELECT banner FROM v$version WHERE banner LIKE '' @ [CHR 0x27] @ ''Oracle%'' @ [CHR 0x27])
           = Some (banner # columns) \<and>
         banner = before @ ''Express'' @ after)) \<and>
   snd (load_oracle_spatial_driver conn args)
     = [''SELECT banner FROM v$version WHERE banner LIKE '' @ [CHR 0x27] @ ''Oracle%'' @ [CHR 0x27]] \<and>
   init_oracle_spatial conn args = (Inr PyNone, []) \<and>
   (\<forall>r. fst (load_oracle_spatial_driver conn args) = Inr r \<longrightarrow>
      load_oracle_spatial conn args ([] :: (string \<times> 'v) list)
        = (Inr PyNone, snd (load_oracle_spatial_driver conn args)) \<and>
      (\<forall>kwargs :: (string \<times> 'v) list. kwargs \<noteq> [] \<longrightarrow>
         load_oracle_spatial conn args kwargs
           = (Inl TypeError, snd (load_oracle_spatial_driver conn args))))"
  (is "(?raises \<longleftrightarrow> ?express) \<and> ?query \<and> ?init \<and> ?load")
proof -
  let ?q = "''SELECT banner FROM v$version WHERE banner LIKE '' @ [CHR 0x27] @ ''Oracle%'' @ [CHR 0x27]"
  have iff: "?raises \<longleftrightarrow> ?express"
  proof (cases "cursor_fetchone conn ?q")
    case None
    then show ?thesis by (simp add: load_oracle_spatial_driver_def Let_def)
  next
    case (Some row)
    show ?thesis
    proof (cases row)
      case Nil
      with Some show ?thesis by (simp add: load_oracle_spatial_driver_def Let_def)
    next
      case (Cons banner columns)
      with Some show ?thesis
        using py_find_contains [of banner "''Express''"]
        by (auto simp add: load_oracle_spatial_driver_def Let_def)
    qed
  qed
  have query: ?query
    by (simp add: load_oracle_spatial_driver_def Let_def split: option.splits list.splits)
  have init: ?init
    by (simp add: init_oracle_spatial_def)
  have load: ?load
    by (auto simp add: load_oracle_spatial_def init_oracle_spatial_def split: prod.splits sum.splits)
  from iff query init load show ?thesis by blast
qed

theorem load_oracle_spatial_outcome_witness:
  "load_oracle_spatial sample_conn ([] :: unit list) ([] :: (string \<times> bool) list)
     = (Inr PyNone,
        [''SELECT banner FROM v$version WHERE banner LIKE '' @ [CHR 0x27] @ ''Oracle%'' @ [CHR 0x27]]) \<and>
   fst (load_oracle_spatial_driver sample_express_conn ([] :: unit list))
     = Inl (RuntimeError ''The Express edition of the Oracle database is not supported.'')"
proof -
  have r: "fst (load_oracle_spatial_driver sample_conn ([] :: unit list)) = Inr PyNone"
    by (simp add: load_oracle_spatial_driver_def sample_conn_def py_find_def)
  have e: "cursor_fetchone sample_express_conn
             (''SELECT banner FROM v$version WHERE banner LIKE '' @ [CHR 0x27] @ ''Oracle%'' @ [CHR 0x27])
           = Some (''Oracle Database 21c Express Edition'' # []) \<and>
           ''Oracle Database 21c Express Edition'' = ''Oracle Database 21c '' @ ''Express'' @ '' Edition''"
    by (simp add: sample_express_conn_def)
  have first: "load_oracle_spatial sample_conn ([] :: unit list) ([] :: (string \<times> bool) list)
     = (Inr PyNone,
        [''SELECT banner FROM v$version WHERE banner LIKE '' @ [CHR 0x27] @ ''Oracle%'' @ [CHR 0x27]])"
    using load_oracle_spatial_outcome [where ?'v = bool, of sample_conn "[] :: unit list"] r
    by simp
  have "\<exists>message. fst (load_oracle_spatial_driver sample_express_conn ([] :: unit list))
                = Inl (RuntimeError message)"
    using load_oracle_spatial_outcome [where ?'v = bool, of sample_express_conn "[] :: unit list"] e
    by blast
  then have second: "fst (load_oracle_spatial_driver sample_express_conn ([] :: unit list))
     = Inl (RuntimeError ''The Express edition of the Oracle database is not supported.'')"
    by (auto simp add: load_oracle_spatial_driver_def Let_def split: option.splits list.splits if_splits)
  from first second show ?thesis by blast
qed

end
